theory Spec2Isabelle
  imports Main "HOL-Library.Word"
begin

unbundle bit_operations_syntax

section \<open>Python values\<close>

text \<open>
  A Python \<open>bytes\<close> object is a list of 8-bit words; a Python \<open>str\<close> is a list of Unicode
  code points (numbers below \<open>0x110000\<close>). \<open>py\<close> turns an ASCII literal into such a string.
\<close>

type_synonym byte = "8 word"
type_synonym pystr = "nat list"

definition py :: "string \<Rightarrow> pystr" where
  "py s = map of_char s"

text \<open>\<open>pyb\<close> does the same for a bytes literal.\<close>

definition pyb :: "string \<Rightarrow> byte list" where
  "pyb s = map of_char s"

text \<open>
  Exceptions are values: the class of the exception and the text \<open>str(e)\<close> gives for it.
  Only instances of \<open>Exception\<close> are modelled. \<open>BinasciiError\<close> is \<open>binascii.Error\<close>;
  \<open>OtherException\<close> carries the class name of an exception of a library.
\<close>

datatype exc =
    ValueError | TypeError | IndexError | KeyError | AttributeError
  | UnicodeDecodeError | UnicodeEncodeError | BinasciiError
  | FileNotFoundError | JSONDecodeError | OtherException pystr

datatype py_error = Raise exc pystr

fun exc_class :: "py_error \<Rightarrow> exc" where
  "exc_class (Raise c m) = c"

fun str_exc :: "py_error \<Rightarrow> pystr" where
  "str_exc (Raise c m) = m"

text \<open>\<open>type(e).__name__\<close>\<close>

fun exc_name :: "exc \<Rightarrow> pystr" where
  "exc_name ValueError = py ''ValueError''"
| "exc_name TypeError = py ''TypeError''"
| "exc_name IndexError = py ''IndexError''"
| "exc_name KeyError = py ''KeyError''"
| "exc_name AttributeError = py ''AttributeError''"
| "exc_name UnicodeDecodeError = py ''UnicodeDecodeError''"
| "exc_name UnicodeEncodeError = py ''UnicodeEncodeError''"
| "exc_name BinasciiError = py ''Error''"
| "exc_name FileNotFoundError = py ''FileNotFoundError''"
| "exc_name JSONDecodeError = py ''JSONDecodeError''"
| "exc_name (OtherException n) = n"

text \<open>
  What \<open>json.load\<close> returns. An object is a Python dict, kept as an association list in
  insertion order with distinct keys. A float is kept as an opaque pair: no operation of
  the decryptor computes with it.
\<close>

datatype json =
    JNull | JBool bool | JInt int | JFloat int int | JStr pystr
  | JArr "json list" | JObj "(pystr \<times> json) list"

text \<open>\<open>type(v).__name__\<close>\<close>

fun type_name :: "json \<Rightarrow> pystr" where
  "type_name JNull = py ''NoneType''"
| "type_name (JBool b) = py ''bool''"
| "type_name (JInt i) = py ''int''"
| "type_name (JFloat m e) = py ''float''"
| "type_name (JStr s) = py ''str''"
| "type_name (JArr xs) = py ''list''"
| "type_name (JObj kvs) = py ''dict''"

text \<open>Decimal text of a length or a position (\<open>str(n)\<close>, \<open>%zd\<close>).\<close>

fun str_nat :: "nat \<Rightarrow> pystr" where
  "str_nat n = (if n < 10 then [48 + n] else str_nat (n div 10) @ [48 + n mod 10])"

text \<open>A lower-case hexadecimal digit, and \<open>bytes.hex()\<close>.\<close>

definition hex_digit :: "nat \<Rightarrow> nat" where
  "hex_digit d = (if d < 10 then 48 + d else 87 + d)"

definition bytes_hex :: "byte list \<Rightarrow> pystr" where
  "bytes_hex bs = concat (map (\<lambda>b. [hex_digit (unat b div 16), hex_digit (unat b mod 16)]) bs)"

section \<open>Standard library: base64.b64decode\<close>

text \<open>
  \<open>base64.b64decode(s)\<close> with its defaults (\<open>altchars=None\<close>, \<open>validate=False\<close>), as
  CPython 3.11 to 3.13 implements it: a \<open>str\<close> argument is encoded as ASCII (a character
  outside ASCII is a ValueError), then \<open>binascii.a2b_base64\<close> runs in its non-strict mode,
  where a character outside the alphabet is skipped, a \<open>=\<close> ends the input once the current
  quad is complete with it, and the padding check is made on what is left.
\<close>

definition table_a2b_base64 :: "nat \<Rightarrow> byte option" where
  "table_a2b_base64 c =
     (if 65 \<le> c \<and> c \<le> 90 then Some (of_nat (c - 65))
      else if 97 \<le> c \<and> c \<le> 122 then Some (of_nat (c - 71))
      else if 48 \<le> c \<and> c \<le> 57 then Some (of_nat (c + 4))
      else if c = 43 then Some 62
      else if c = 47 then Some 63
      else None)"

fun a2b_base64 :: "nat list \<Rightarrow> nat \<Rightarrow> byte \<Rightarrow> nat \<Rightarrow> byte list \<Rightarrow> py_error + byte list" where
  "a2b_base64 [] quad_pos leftchar pads bin_data =
     (if quad_pos \<noteq> 0 then
        (if quad_pos = 1 then
           Inl (Raise BinasciiError
                  (py ''Invalid base64-encoded string: number of data characters (''
                   @ str_nat (length bin_data div 3 * 4 + 1)
                   @ py '') cannot be 1 more than a multiple of 4''))
         else Inl (Raise BinasciiError (py ''Incorrect padding'')))
      else Inr bin_data)"
| "a2b_base64 (this_ch # rest) quad_pos leftchar pads bin_data =
     (if this_ch = 61 then
        (if quad_pos \<ge> 2 then
           (if quad_pos + (pads + 1) \<ge> 4 then Inr bin_data
            else a2b_base64 rest quad_pos leftchar (pads + 1) bin_data)
         else a2b_base64 rest quad_pos leftchar pads bin_data)
      else
        (case table_a2b_base64 this_ch of
           None \<Rightarrow> a2b_base64 rest quad_pos leftchar pads bin_data
         | Some v \<Rightarrow>
             (if quad_pos = 0 then a2b_base64 rest 1 v 0 bin_data
              else if quad_pos = 1 then
                a2b_base64 rest 2 (v AND 0x0f) 0
                  (bin_data @ [push_bit 2 leftchar OR drop_bit 4 v])
              else if quad_pos = 2 then
                a2b_base64 rest 3 (v AND 0x03) 0
                  (bin_data @ [push_bit 4 leftchar OR drop_bit 2 v])
              else
                a2b_base64 rest 0 0 0
                  (bin_data @ [push_bit 6 leftchar OR v]))))"

definition b64decode :: "json \<Rightarrow> py_error + byte list" where
  "b64decode s =
     (case s of
        JStr t \<Rightarrow>
          (if list_ex (\<lambda>c. c \<ge> 128) t
           then Inl (Raise ValueError (py ''string argument should contain only ASCII characters''))
           else a2b_base64 t 0 0 0 [])
      | _ \<Rightarrow>
          Inl (Raise TypeError
                 (py ''argument should be a bytes-like object or ASCII string, not ''
                  @ [39] @ type_name s @ [39])))"

section \<open>Standard library: bytes.fromhex\<close>

text \<open>
  \<open>bytes.fromhex(s)\<close> as CPython 3.11 to 3.13 implements it: a string with a character
  outside ASCII fails at the first such character; ASCII whitespace is skipped between
  bytes, not between the two digits of a byte; a missing second digit fails at the position
  after the last character. An argument that is not a string is a TypeError that names
  its type, and \<open>None\<close> as \<open>None\<close>.
\<close>

definition Py_ISSPACE :: "nat \<Rightarrow> bool" where
  "Py_ISSPACE c = (c = 32 \<or> (9 \<le> c \<and> c \<le> 13))"

definition hex_value :: "nat \<Rightarrow> nat option" where
  "hex_value c =
     (if 48 \<le> c \<and> c \<le> 57 then Some (c - 48)
      else if 97 \<le> c \<and> c \<le> 102 then Some (c - 87)
      else if 65 \<le> c \<and> c \<le> 70 then Some (c - 55)
      else None)"

definition fromhex_error :: "nat \<Rightarrow> py_error" where
  "fromhex_error invalid_char =
     Raise ValueError
       (py ''non-hexadecimal number found in fromhex() arg at position '' @ str_nat invalid_char)"

fun fromhex_loop :: "nat list \<Rightarrow> nat \<Rightarrow> byte list \<Rightarrow> py_error + byte list" where
  "fromhex_loop [] pos buf = Inr buf"
| "fromhex_loop [c] pos buf =
     (if Py_ISSPACE c then Inr buf
      else (case hex_value c of
              None \<Rightarrow> Inl (fromhex_error pos)
            | Some top_digit \<Rightarrow> Inl (fromhex_error (pos + 1))))"
| "fromhex_loop (c # d # rest) pos buf =
     (if Py_ISSPACE c then fromhex_loop (d # rest) (pos + 1) buf
      else (case hex_value c of
              None \<Rightarrow> Inl (fromhex_error pos)
            | Some top_digit \<Rightarrow>
                (case hex_value d of
                   None \<Rightarrow> Inl (fromhex_error (pos + 1))
                 | Some bot_digit \<Rightarrow> fromhex_loop rest (pos + 2) (buf @ [of_nat (top_digit * 16 + bot_digit)]))))"

definition first_non_ascii :: "nat list \<Rightarrow> nat" where
  "first_non_ascii s = length (takeWhile (\<lambda>c. c < 128) s)"

definition fromhex :: "json \<Rightarrow> py_error + byte list" where
  "fromhex s =
     (case s of
        JStr t \<Rightarrow>
          (if list_ex (\<lambda>c. c \<ge> 128) t then Inl (fromhex_error (first_non_ascii t))
           else fromhex_loop t 0 [])
      | JNull \<Rightarrow> Inl (Raise TypeError (py ''fromhex() argument must be str, not None''))
      | _ \<Rightarrow>
          Inl (Raise TypeError (py ''fromhex() argument must be str, not '' @ type_name s)))"

section \<open>decrypt.py: decoding the seed and the initialization vector\<close>

text \<open>
  The arguments of \<open>verbose_output\<close> are f-strings over values that format without error
  (\<open>len\<close> and \<open>hex\<close> of a bytes object, the text of a value); with \<open>VERBOSE = False\<close> in
  main.py nothing is printed, so these calls leave no trace in the model.
\<close>

definition decode_base64_seed :: "json \<Rightarrow> py_error + byte list" where
  "decode_base64_seed encrypted_seed_b64 = b64decode encrypted_seed_b64"

definition get_iv :: "json \<Rightarrow> py_error + byte list" where
  "get_iv unique_iv =
     (case fromhex unique_iv of
        Inl e \<Rightarrow> Inl e
      | Inr iv \<Rightarrow>
          (if length iv \<noteq> 16
           then Inl (Raise ValueError (py ''Invalid IV length: '' @ str_nat (length iv)))
           else Inr iv))"

section \<open>decrypt.py: the padding stripper\<close>

text \<open>
  \<open>decrypted_data[-1]\<close> raises IndexError on the empty sequence. \<open>padding_start\<close> is a
  Python integer and may be negative; the slices are taken only when it is not.
\<close>

definition remove_padding :: "byte list \<Rightarrow> py_error + byte list" where
  "remove_padding decrypted_data =
     (if decrypted_data = [] then Inl (Raise IndexError (py ''index out of range''))
      else
        let padding_len = uint (last decrypted_data);
            padding_start = int (length decrypted_data) - padding_len
        in if padding_len > 16 \<or> padding_start < 0
           then Inl (Raise ValueError (py ''Invalid padding length''))
           else
             let padding_bytes = drop (nat padding_start) decrypted_data
             in if \<not> list_all (\<lambda>pad. uint pad = padding_len) padding_bytes
                then Inl (Raise ValueError (py ''Invalid padding bytes''))
                else Inr (take (nat padding_start) decrypted_data))"

section \<open>Standard library: UTF-8\<close>

text \<open>
  \<open>s.encode()\<close>: UTF-8, strict. A surrogate code point (\<open>U+D800\<close> to \<open>U+DFFF\<close>, which
  \<open>json.load\<close> and the environment can both deliver) is a UnicodeEncodeError whose text
  names the run of surrogates that starts there.
\<close>

definition is_surrogate :: "nat \<Rightarrow> bool" where
  "is_surrogate c = (0xD800 \<le> c \<and> c \<le> 0xDFFF)"

definition encode_error :: "nat list \<Rightarrow> nat \<Rightarrow> py_error" where
  "encode_error s start =
     (let run = length (takeWhile is_surrogate (drop start s));
          c = s ! start
      in if run = 1 then
           Raise UnicodeEncodeError
             ([39] @ py ''utf-8'' @ [39] @ py '' codec can'' @ [39] @ py ''t encode character '' @ [39, 92, 117]
              @ map hex_digit [c div 4096 mod 16, c div 256 mod 16, c div 16 mod 16, c mod 16]
              @ [39] @ py '' in position '' @ str_nat start @ py '': surrogates not allowed'')
         else
           Raise UnicodeEncodeError
             ([39] @ py ''utf-8'' @ [39] @ py '' codec can'' @ [39] @ py ''t encode characters in position ''
              @ str_nat start
              @ py ''-'' @ str_nat (start + run - 1) @ py '': surrogates not allowed''))"

definition utf8_bytes :: "nat \<Rightarrow> byte list" where
  "utf8_bytes c =
     (if c < 0x80 then [of_nat c]
      else if c < 0x800 then [of_nat (0xC0 + c div 64), of_nat (0x80 + c mod 64)]
      else if c < 0x10000 then
        [of_nat (0xE0 + c div 4096), of_nat (0x80 + c div 64 mod 64), of_nat (0x80 + c mod 64)]
      else
        [of_nat (0xF0 + c div 262144), of_nat (0x80 + c div 4096 mod 64),
         of_nat (0x80 + c div 64 mod 64), of_nat (0x80 + c mod 64)])"

definition str_encode :: "pystr \<Rightarrow> py_error + byte list" where
  "str_encode s =
     (if list_ex is_surrogate s
      then Inl (encode_error s (length (takeWhile (\<lambda>c. \<not> is_surrogate c) s)))
      else Inr (concat (map utf8_bytes s)))"

text \<open>
  \<open>b.decode("utf-8")\<close>: strict, so an overlong form, a surrogate, a code point above
  \<open>U+10FFFF\<close>, a stray continuation byte and a truncated sequence are a
  UnicodeDecodeError. Its text is only ever formatted into an argument of
  \<open>verbose_output\<close>, which prints nothing; the model keeps the position out of it.
  The decoder reads byte by byte: \<open>need\<close> continuation bytes are still due for the code
  point accumulated in \<open>acc\<close>, and the next one must lie between \<open>lo\<close> and \<open>hi\<close>.
\<close>

definition decode_error :: py_error where
  "decode_error =
     Raise UnicodeDecodeError
       ([39] @ py ''utf-8'' @ [39] @ py '' codec can'' @ [39] @ py ''t decode bytes'')"

definition cons_res :: "nat \<Rightarrow> py_error + pystr \<Rightarrow> py_error + pystr" where
  "cons_res c r = (case r of Inl e \<Rightarrow> Inl e | Inr s \<Rightarrow> Inr (c # s))"

fun utf8_loop :: "byte list \<Rightarrow> nat \<Rightarrow> nat \<Rightarrow> nat \<Rightarrow> nat \<Rightarrow> py_error + pystr" where
  "utf8_loop [] need acc lo hi = (if need = 0 then Inr [] else Inl decode_error)"
| "utf8_loop (b # rest) need acc lo hi =
     (if need = 0 then
        (if unat b < 0x80 then cons_res (unat b) (utf8_loop rest 0 0 0x80 0xBF)
         else if 0xC2 \<le> unat b \<and> unat b \<le> 0xDF then
           utf8_loop rest 1 (unat b - 0xC0) 0x80 0xBF
         else if 0xE0 \<le> unat b \<and> unat b \<le> 0xEF then
           utf8_loop rest 2 (unat b - 0xE0)
             (if unat b = 0xE0 then 0xA0 else 0x80) (if unat b = 0xED then 0x9F else 0xBF)
         else if 0xF0 \<le> unat b \<and> unat b \<le> 0xF4 then
           utf8_loop rest 3 (unat b - 0xF0)
             (if unat b = 0xF0 then 0x90 else 0x80) (if unat b = 0xF4 then 0x8F else 0xBF)
         else Inl decode_error)
      else if lo \<le> unat b \<and> unat b \<le> hi then
        (if need = 1
         then cons_res (acc * 64 + (unat b - 0x80)) (utf8_loop rest 0 0 0x80 0xBF)
         else utf8_loop rest (need - 1) (acc * 64 + (unat b - 0x80)) 0x80 0xBF)
      else Inl decode_error)"

definition bytes_decode :: "byte list \<Rightarrow> py_error + pystr" where
  "bytes_decode bs = utf8_loop bs 0 0 0x80 0xBF"

section \<open>The libraries the decryptor calls\<close>

text \<open>
  The cryptography package, the Unicode case tables and the JSON encoder are not part of
  the repository; they are parameters of the model, and every theorem holds whatever they
  compute.
  \<^item> \<open>unicode_upper c\<close>: the upper-case mapping of \<open>str.upper()\<close> for a code point
    \<open>c \<ge> 128\<close> (one to three code points);
  \<^item> \<open>pbkdf2_new iterations salt\<close>: what constructing
    \<open>PBKDF2HMAC(SHA1, length=32, salt, iterations)\<close> raises, if anything;
  \<^item> \<open>pbkdf2_derive iterations salt passphrase\<close>: \<open>kdf.derive(passphrase)\<close>;
  \<^item> \<open>aes_cbc key iv data\<close>: building the AES-CBC cipher and decryptor and running
    \<open>update(data) + finalize()\<close>;
  \<^item> \<open>json_dumps v\<close>: what \<open>json.dumps(v, indent=4)\<close> raises, if anything. With an
    indent the encoder is the recursive one written in Python, which raises RecursionError
    on a value nested deeper than the recursion limit of the interpreter leaves room for;
    \<open>json.load\<close> can deliver such a value;
  \<^item> \<open>json_dump v\<close>: the same for \<open>json.dump(v, file, indent=4)\<close>, which writes the
    text piece by piece as the encoder produces it.
\<close>

record libs =
  unicode_upper :: "nat \<Rightarrow> nat list"
  pbkdf2_new :: "json \<Rightarrow> byte list \<Rightarrow> py_error option"
  pbkdf2_derive :: "json \<Rightarrow> byte list \<Rightarrow> byte list \<Rightarrow> py_error + byte list"
  aes_cbc :: "byte list \<Rightarrow> byte list \<Rightarrow> byte list \<Rightarrow> py_error + byte list"
  json_dumps :: "json \<Rightarrow> py_error option"
  json_dump :: "json \<Rightarrow> py_error option"

section \<open>decrypt.py: key derivation and block decryption\<close>

text \<open>
  The keyword arguments of the constructor are evaluated first (\<open>salt.encode()\<close> among
  them: an AttributeError when the salt is not a string), then the constructor runs, then
  \<open>passphrase.encode()\<close>, then \<open>derive\<close>. The passphrase comes from the environment or
  from \<open>getpass\<close> and is a string.
\<close>

definition derive_key :: "libs \<Rightarrow> json \<Rightarrow> json \<Rightarrow> pystr \<Rightarrow> py_error + byte list" where
  "derive_key L kdf_rounds salt passphrase =
     (case salt of
        JStr salt_text \<Rightarrow>
          (case str_encode salt_text of
             Inl e \<Rightarrow> Inl e
           | Inr salt_bytes \<Rightarrow>
               (case pbkdf2_new L kdf_rounds salt_bytes of
                  Some e \<Rightarrow> Inl e
                | None \<Rightarrow>
                    (case str_encode passphrase of
                       Inl e \<Rightarrow> Inl e
                     | Inr pass_bytes \<Rightarrow> pbkdf2_derive L kdf_rounds salt_bytes pass_bytes)))
      | _ \<Rightarrow>
          Inl (Raise AttributeError
                 ([39] @ type_name salt @ [39] @ py '' object has no attribute '' @ [39] @ py ''encode'' @ [39])))"

definition decrypt_data :: "libs \<Rightarrow> byte list \<Rightarrow> byte list \<Rightarrow> byte list \<Rightarrow> py_error + byte list" where
  "decrypt_data L encrypted_seed key iv = aes_cbc L key iv encrypted_seed"

section \<open>Standard library: str.upper, str.replace and the two regular expressions\<close>

text \<open>
  \<open>str.upper()\<close> maps every code point on its own: a lower-case ASCII letter to its
  capital, any other ASCII character to itself, a code point outside ASCII by the Unicode
  table of the library.
\<close>

definition upper_char :: "libs \<Rightarrow> nat \<Rightarrow> nat list" where
  "upper_char L c =
     (if c < 128 then [if 97 \<le> c \<and> c \<le> 122 then c - 32 else c] else unicode_upper L c)"

definition str_upper :: "libs \<Rightarrow> pystr \<Rightarrow> pystr" where
  "str_upper L s = concat (map (upper_char L) s)"

text \<open>\<open>s.replace(" ", "")\<close>\<close>

definition remove_spaces :: "pystr \<Rightarrow> pystr" where
  "remove_spaces s = filter (\<lambda>c. c \<noteq> 32) s"

text \<open>The character class \<open>[A-Z2-7=]\<close>.\<close>

definition base32_char :: "nat \<Rightarrow> bool" where
  "base32_char c = ((65 \<le> c \<and> c \<le> 90) \<or> (50 \<le> c \<and> c \<le> 55) \<or> c = 61)"

text \<open>
  \<open>re.match(r"^[A-Z2-7=]+$", s)\<close>: the greedy run from the start of the string must be
  non-empty and reach the end of the string; without \<open>re.MULTILINE\<close>, \<open>$\<close> also matches
  just before a line feed that ends the string.
\<close>

definition match_base32 :: "pystr \<Rightarrow> bool" where
  "match_base32 s =
     (takeWhile base32_char s \<noteq> []
      \<and> (dropWhile base32_char s = [] \<or> dropWhile base32_char s = [10]))"

text \<open>
  \<open>re.search(r"[A-Z2-7=]{10,}", s)\<close>, with \<open>.group()\<close> of the match: the start positions
  are tried from left to right, and at each the quantifier takes the whole run of class
  characters there; the first position whose run has ten characters or more gives the match.
\<close>

fun search_base32 :: "pystr \<Rightarrow> pystr option" where
  "search_base32 [] = None"
| "search_base32 (c # cs) =
     (if length (takeWhile base32_char (c # cs)) \<ge> 10
      then Some (takeWhile base32_char (c # cs))
      else search_base32 cs)"

text \<open>\<open>chr(i)\<close>, a ValueError outside the range of code points.\<close>

definition py_chr :: "int \<Rightarrow> py_error + nat" where
  "py_chr i =
     (if 0 \<le> i \<and> i < 0x110000 then Inr (nat i)
      else Inl (Raise ValueError (py ''chr() arg not in range(0x110000)'')))"

text \<open>A list comprehension whose element expression may raise stops at the first error.\<close>

fun collect :: "('a \<Rightarrow> py_error + 'b) \<Rightarrow> 'a list \<Rightarrow> py_error + 'b list" where
  "collect f [] = Inr []"
| "collect f (x # xs) =
     (case f x of
        Inl e \<Rightarrow> Inl e
      | Inr y \<Rightarrow> (case collect f xs of Inl e \<Rightarrow> Inl e | Inr ys \<Rightarrow> Inr (y # ys)))"

section \<open>decrypt.py: the seed decoder\<close>

text \<open>
  The \<open>try\<close> block returns from inside; its \<open>except\<close> clause names UnicodeDecodeError
  only, so any other exception would leave the function.
\<close>

definition decode_decrypted_seed :: "libs \<Rightarrow> byte list \<Rightarrow> py_error + pystr" where
  "decode_decrypted_seed L decrypted_seed_without_padding =
     (case bytes_decode decrypted_seed_without_padding of
        Inr utf8_result \<Rightarrow>
          (if match_base32 (remove_spaces (str_upper L utf8_result))
           then Inr (remove_spaces (str_upper L utf8_result))
           else Inr utf8_result)
      | Inl e \<Rightarrow>
          (if exc_class e \<noteq> UnicodeDecodeError then Inl e
           else
             (case collect py_chr
                     (filter (\<lambda>b. 32 \<le> b \<and> b \<le> 126) (map uint decrypted_seed_without_padding)) of
                Inl e' \<Rightarrow> Inl e'
              | Inr ascii_string \<Rightarrow>
                  (case search_base32 (str_upper L ascii_string) of
                     Some base32_match \<Rightarrow> Inr base32_match
                   | None \<Rightarrow>
                       (if length ascii_string \<ge> 8 then Inr ascii_string
                        else Inr (str_upper L (bytes_hex decrypted_seed_without_padding)))))))"

section \<open>decrypt.py: one token\<close>

text \<open>The body of the \<open>try\<close> block of \<open>decrypt_token\<close>: the six stages in order.\<close>

definition token_pipeline :: "libs \<Rightarrow> json \<Rightarrow> json \<Rightarrow> json \<Rightarrow> pystr \<Rightarrow> json \<Rightarrow> py_error + pystr" where
  "token_pipeline L kdf_rounds encrypted_seed_b64 salt passphrase unique_iv =
     (case decode_base64_seed encrypted_seed_b64 of
        Inl e \<Rightarrow> Inl e
      | Inr encrypted_seed \<Rightarrow>
     (case get_iv unique_iv of
        Inl e \<Rightarrow> Inl e
      | Inr iv \<Rightarrow>
     (case derive_key L kdf_rounds salt passphrase of
        Inl e \<Rightarrow> Inl e
      | Inr key \<Rightarrow>
     (case decrypt_data L encrypted_seed key iv of
        Inl e \<Rightarrow> Inl e
      | Inr decrypted_data \<Rightarrow>
     (case remove_padding decrypted_data of
        Inl e \<Rightarrow> Inl e
      | Inr decrypted_seed_without_padding \<Rightarrow>
          decode_decrypted_seed L decrypted_seed_without_padding)))))"

text \<open>
  The terminal colours of main.py and colorama. \<open>decrypt_token\<close> returns the lines it
  prints on standard output together with its result; the traceback goes to standard
  error and is not modelled.
\<close>

definition RED :: pystr where
  "RED = 27 # py ''[91m''"

definition RESET_ALL :: pystr where
  "RESET_ALL = 27 # py ''[0m''"

definition decrypt_token :: "libs \<Rightarrow> json \<Rightarrow> json \<Rightarrow> json \<Rightarrow> pystr \<Rightarrow> json \<Rightarrow> pystr list \<times> pystr" where
  "decrypt_token L kdf_rounds encrypted_seed_b64 salt passphrase unique_iv =
     (case token_pipeline L kdf_rounds encrypted_seed_b64 salt passphrase unique_iv of
        Inr seed \<Rightarrow> ([], seed)
      | Inl e \<Rightarrow>
          ([RED @ py ''ERROR: Decryption failed with exception: '' @ exc_name (exc_class e)
            @ py '': '' @ str_exc e @ RESET_ALL],
           py ''Decryption failed: '' @ str_exc e))"

section \<open>Python operations on loaded JSON values\<close>

text \<open>
  \<open>d[key]\<close> on a dict: a KeyError whose text is the \<open>repr\<close> of the key (the keys used
  here are plain ASCII words, so the \<open>repr\<close> is the key between apostrophes).
\<close>

definition dict_item :: "(pystr \<times> json) list \<Rightarrow> pystr \<Rightarrow> py_error + json" where
  "dict_item d key =
     (case map_of d key of
        None \<Rightarrow> Inl (Raise KeyError ([39] @ key @ [39]))
      | Some v \<Rightarrow> Inr v)"

text \<open>\<open>d.get(key, default)\<close>\<close>

definition dict_get :: "(pystr \<times> json) list \<Rightarrow> pystr \<Rightarrow> json \<Rightarrow> json" where
  "dict_get d key dflt = (case map_of d key of None \<Rightarrow> dflt | Some v \<Rightarrow> v)"

text \<open>What a \<open>for\<close> loop iterates over (error texts as in CPython 3.11 to 3.13).\<close>

definition py_iter :: "json \<Rightarrow> py_error + json list" where
  "py_iter v =
     (case v of
        JArr xs \<Rightarrow> Inr xs
      | JObj d \<Rightarrow> Inr (map (\<lambda>kv. JStr (fst kv)) d)
      | JStr s \<Rightarrow> Inr (map (\<lambda>c. JStr [c]) s)
      | _ \<Rightarrow> Inl (Raise TypeError ([39] @ type_name v @ [39] @ py '' object is not iterable'')))"

text \<open>\<open>key in v\<close> for a string \<open>key\<close>.\<close>

fun substring :: "pystr \<Rightarrow> pystr \<Rightarrow> bool" where
  "substring key [] = (key = [])"
| "substring key (c # cs) = (take (length key) (c # cs) = key \<or> substring key cs)"

definition py_contains :: "pystr \<Rightarrow> json \<Rightarrow> py_error + bool" where
  "py_contains key v =
     (case v of
        JObj d \<Rightarrow> Inr (map_of d key \<noteq> None)
      | JArr xs \<Rightarrow> Inr (list_ex (\<lambda>x. x = JStr key) xs)
      | JStr s \<Rightarrow> Inr (substring key s)
      | _ \<Rightarrow>
          Inl (Raise TypeError
                 (py ''argument of type '' @ [39] @ type_name v @ [39] @ py '' is not iterable'')))"

text \<open>\<open>v[key]\<close> for a string \<open>key\<close>.\<close>

definition py_getitem :: "json \<Rightarrow> pystr \<Rightarrow> py_error + json" where
  "py_getitem v key =
     (case v of
        JObj d \<Rightarrow> dict_item d key
      | JArr xs \<Rightarrow> Inl (Raise TypeError (py ''list indices must be integers or slices, not str''))
      | JStr s \<Rightarrow>
          Inl (Raise TypeError
                 (py ''string indices must be integers, not '' @ [39] @ py ''str'' @ [39]))
      | _ \<Rightarrow>
          Inl (Raise TypeError ([39] @ type_name v @ [39] @ py '' object is not subscriptable'')))"

section \<open>decrypt.py: the batch\<close>

text \<open>
  What one iteration reads from a token that is a dict before it calls \<open>decrypt_token\<close>:
  \<open>token.get("unique_iv", ...)\<close> first, then the three subscripts in the order of the
  keyword arguments. On a token that is not a dict, \<open>token.get\<close> is an AttributeError.
\<close>

definition DEFAULT_IV :: pystr where
  "DEFAULT_IV = py ''00000000000000000000000000000000''"

definition token_arguments :: "(pystr \<times> json) list \<Rightarrow> py_error + (json \<times> json \<times> json \<times> json)" where
  "token_arguments d =
     (let unique_iv = dict_get d (py ''unique_iv'') (JStr DEFAULT_IV) in
      case dict_item d (py ''key_derivation_iterations'') of
        Inl e \<Rightarrow> Inl e
      | Inr kdf_rounds \<Rightarrow>
     (case dict_item d (py ''encrypted_seed'') of
        Inl e \<Rightarrow> Inl e
      | Inr encrypted_seed_b64 \<Rightarrow>
     (case dict_item d (py ''salt'') of
        Inl e \<Rightarrow> Inl e
      | Inr salt \<Rightarrow> Inr (unique_iv, kdf_rounds, encrypted_seed_b64, salt))))"

definition no_get :: "json \<Rightarrow> py_error" where
  "no_get token =
     Raise AttributeError
       ([39] @ type_name token @ [39] @ py '' object has no attribute '' @ [39] @ py ''get'' @ [39])"

text \<open>The dict appended for a token; its items are evaluated in the order written.\<close>

definition output_record :: "(pystr \<times> json) list \<Rightarrow> pystr \<Rightarrow> py_error + json" where
  "output_record d decrypted_seed =
     (case dict_item d (py ''account_type'') of Inl e \<Rightarrow> Inl e | Inr account_type \<Rightarrow>
     (case dict_item d (py ''name'') of Inl e \<Rightarrow> Inl e | Inr name \<Rightarrow>
     (case dict_item d (py ''issuer'') of Inl e \<Rightarrow> Inl e | Inr issuer \<Rightarrow>
     (case dict_item d (py ''digits'') of Inl e \<Rightarrow> Inl e | Inr digits \<Rightarrow>
     (case dict_item d (py ''logo'') of Inl e \<Rightarrow> Inl e | Inr logo \<Rightarrow>
     (case dict_item d (py ''unique_id'') of Inl e \<Rightarrow> Inl e | Inr unique_id \<Rightarrow>
        Inr (JObj [(py ''account_type'', account_type), (py ''name'', name),
                   (py ''issuer'', issuer), (py ''decrypted_seed'', JStr decrypted_seed),
                   (py ''digits'', digits), (py ''logo'', logo),
                   (py ''unique_id'', unique_id)])))))))"

text \<open>
  The effects of a run so far: the lines printed on standard output, and the value each
  call of \<open>decrypt_token\<close> returned, in call order.
\<close>

record trace =
  printed :: "pystr list"
  decrypted :: "pystr list"

text \<open>
  The \<open>for\<close> loop: the tokens still to visit, the effects so far and the list
  \<open>decrypted_tokens\<close> built so far. An exception raised outside \<open>decrypt_token\<close> ends the
  loop and leaves the function; that includes \<open>json.dumps(token, indent=4)\<close>, which every
  iteration evaluates first, for the argument of \<open>verbose_output\<close>. The f-strings of
  \<open>decrypt_token\<close> then format fields of a token that the encoder has just walked through.
\<close>

fun decrypt_loop :: "libs \<Rightarrow> pystr \<Rightarrow> json list \<Rightarrow> trace \<Rightarrow> json list \<Rightarrow> trace \<times> (py_error + json list)" where
  "decrypt_loop L backup_password [] tr decrypted_tokens = (tr, Inr decrypted_tokens)"
| "decrypt_loop L backup_password (token # rest) tr decrypted_tokens =
     (case json_dumps L token of
        Some e \<Rightarrow> (tr, Inl e)
      | None \<Rightarrow>
     (case token of
        JObj d \<Rightarrow>
          (case token_arguments d of
             Inl e \<Rightarrow> (tr, Inl e)
           | Inr (unique_iv, kdf_rounds, encrypted_seed_b64, salt) \<Rightarrow>
               (let r = decrypt_token L kdf_rounds encrypted_seed_b64 salt backup_password unique_iv;
                    tr' = \<lparr>printed = printed tr @ fst r, decrypted = decrypted tr @ [snd r]\<rparr>
                in case output_record d (snd r) of
                     Inl e \<Rightarrow> (tr', Inl e)
                   | Inr entry \<Rightarrow>
                       decrypt_loop L backup_password rest tr' (decrypted_tokens @ [entry])))
      | _ \<Rightarrow> (tr, Inl (no_get token))))"

definition decrypt_all_tokens :: "libs \<Rightarrow> json \<Rightarrow> pystr \<Rightarrow> trace \<Rightarrow> trace \<times> (py_error + json list)" where
  "decrypt_all_tokens L tokens backup_password tr =
     (case py_iter tokens of
        Inl e \<Rightarrow> (tr, Inl e)
      | Inr ts \<Rightarrow> decrypt_loop L backup_password ts tr [])"

section \<open>decrypt.py: loading, writing and the whole run\<close>

text \<open>
  The file system is outside the model: \<open>file\<close> is what \<open>open\<close> and \<open>json.load\<close> give
  for the input path (the parsed value or the exception), and \<open>open_output\<close> is the
  exception opening the output path for writing raises, if any. Once the output file is
  open it exists; when \<open>json.dump\<close> then raises, what it holds is incomplete.
\<close>

datatype output_file = Complete json | Incomplete

definition load_authenticator_data :: "py_error + json \<Rightarrow> py_error + json" where
  "load_authenticator_data file =
     (case file of
        Inl e \<Rightarrow> Inl e
      | Inr data \<Rightarrow>
          (case py_contains (py ''authenticator_tokens'') data of
             Inl e \<Rightarrow> Inl e
           | Inr found \<Rightarrow>
               (if \<not> found
                then Inl (Raise KeyError
                            ([39] @ py ''Key '' @ [34] @ py ''authenticator_tokens'' @ [34]
                             @ py '' not found in the input file.'' @ [39]))
                else Inr data)))"

text \<open>\<open>write_decrypted_tokens\<close> gives the exception it raises, if any, and the file it leaves.\<close>

definition write_decrypted_tokens :: "libs \<Rightarrow> py_error option \<Rightarrow> json list \<Rightarrow> py_error option \<times> output_file option" where
  "write_decrypted_tokens L open_output decrypted_tokens =
     (let output_data =
            JObj [(py ''message'', JStr (py ''success'')),
                  (py ''decrypted_authenticator_tokens'', JArr decrypted_tokens),
                  (py ''success'', JBool True)]
      in case open_output of
           Some e \<Rightarrow> (Some e, None)
         | None \<Rightarrow>
             (case json_dump L output_data of
                Some e \<Rightarrow> (Some e, Some Incomplete)
              | None \<Rightarrow> (None, Some (Complete output_data))))"

text \<open>What a run leaves behind: its effects and the output file, if there is one.\<close>

record outcome =
  effects :: trace
  written :: "output_file option"

definition error_line :: "pystr \<Rightarrow> py_error \<Rightarrow> pystr" where
  "error_line prefix e = RED @ py ''ERROR: '' @ prefix @ str_exc e @ RESET_ALL"

definition process_authenticator_data :: "libs \<Rightarrow> py_error + json \<Rightarrow> py_error option \<Rightarrow> pystr \<Rightarrow> outcome" where
  "process_authenticator_data L file open_output backup_password =
     (case load_authenticator_data file of
        Inl e \<Rightarrow>
          \<lparr>effects =
             \<lparr>printed =
                [error_line
                   (if exc_class e = FileNotFoundError then py ''Input file not found: ''
                    else if exc_class e = JSONDecodeError then py ''Invalid JSON format: ''
                    else if exc_class e = KeyError then []
                    else py ''Failed to load input: '') e],
              decrypted = []\<rparr>,
           written = None\<rparr>
      | Inr data \<Rightarrow>
          (case (case py_getitem data (py ''authenticator_tokens'') of
                   Inl e \<Rightarrow> (\<lparr>printed = [], decrypted = []\<rparr>, Inl e)
                 | Inr tokens \<Rightarrow>
                     decrypt_all_tokens L tokens backup_password \<lparr>printed = [], decrypted = []\<rparr>) of
             (tr, Inl e) \<Rightarrow>
               \<lparr>effects = tr\<lparr>printed := printed tr @ [error_line (py ''Failed during decryption: '') e]\<rparr>,
                written = None\<rparr>
           | (tr, Inr decrypted_tokens) \<Rightarrow>
               (case write_decrypted_tokens L open_output decrypted_tokens of
                  (Some e, file_left) \<Rightarrow>
                    \<lparr>effects = tr\<lparr>printed := printed tr @ [error_line (py ''Failed to write output: '') e]\<rparr>,
                     written = file_left\<rparr>
                | (None, file_left) \<Rightarrow> \<lparr>effects = tr, written = file_left\<rparr>)))"

section \<open>Vocabulary of the statements\<close>

text \<open>
  The keys \<open>decrypt_all_tokens\<close> subscripts on every token: the three it passes to
  \<open>decrypt_token\<close> and the six it copies into the output record.
\<close>

definition required_keys :: "pystr list" where
  "required_keys =
     [py ''key_derivation_iterations'', py ''encrypted_seed'', py ''salt'',
      py ''account_type'', py ''name'', py ''issuer'', py ''digits'', py ''logo'',
      py ''unique_id'']"

text \<open>
  A sample library for the worked examples: characters outside ASCII are their own upper
  case, the constructor accepts everything, the derived key is 32 zero bytes, the cipher
  hands its input back and the JSON encoder never raises. The theorems do not depend on it.
\<close>

definition sample_libs :: libs where
  "sample_libs =
     \<lparr>unicode_upper = (\<lambda>c. [c]),
      pbkdf2_new = (\<lambda>iterations salt. None),
      pbkdf2_derive = (\<lambda>iterations salt passphrase. Inr (replicate 32 0)),
      aes_cbc = (\<lambda>key iv data. Inr data),
      json_dumps = (\<lambda>v. None),
      json_dump = (\<lambda>v. None)\<rparr>"

text \<open>
  A sample token with every required key and no \<open>unique_iv\<close>, around a given Base64 text.
\<close>

definition sample_token :: "string \<Rightarrow> (pystr \<times> json) list" where
  "sample_token b64 =
     [(py ''account_type'', JStr (py ''authenticator'')), (py ''name'', JStr (py ''alice'')),
      (py ''issuer'', JNull), (py ''unique_id'', JStr (py ''17'')), (py ''digits'', JInt 6),
      (py ''logo'', JNull), (py ''encrypted_seed'', JStr (py b64)),
      (py ''salt'', JStr (py ''salt'')), (py ''key_derivation_iterations'', JInt 1000)]"

text \<open>
  What the claims say the batch produces for a token \<open>d\<close> that has the required keys: the
  result of the six stages on its own fields (with the default IV when \<open>unique_iv\<close> is
  absent), or ``Decryption failed: '' and the cause when a stage raises; and the output
  record, which carries that string between the six fields passed through.
\<close>

definition expected_seed :: "libs \<Rightarrow> pystr \<Rightarrow> (pystr \<times> json) list \<Rightarrow> pystr" where
  "expected_seed L passphrase d =
     (case token_pipeline L (the (map_of d (py ''key_derivation_iterations'')))
             (the (map_of d (py ''encrypted_seed''))) (the (map_of d (py ''salt''))) passphrase
             (case map_of d (py ''unique_iv'') of
                None \<Rightarrow> JStr (py ''00000000000000000000000000000000'')
              | Some v \<Rightarrow> v) of
        Inr seed \<Rightarrow> seed
      | Inl e \<Rightarrow> py ''Decryption failed: '' @ str_exc e)"

definition expected_record :: "libs \<Rightarrow> pystr \<Rightarrow> (pystr \<times> json) list \<Rightarrow> json" where
  "expected_record L passphrase d =
     JObj [(py ''account_type'', the (map_of d (py ''account_type''))),
           (py ''name'', the (map_of d (py ''name''))),
           (py ''issuer'', the (map_of d (py ''issuer''))),
           (py ''decrypted_seed'', JStr (expected_seed L passphrase d)),
           (py ''digits'', the (map_of d (py ''digits''))),
           (py ''logo'', the (map_of d (py ''logo''))),
           (py ''unique_id'', the (map_of d (py ''unique_id'')))]"

section \<open>The padding stripper\<close>

lemma uint_of_nat_small: "n \<le> 16 \<Longrightarrow> uint (of_nat n :: byte) = int n"
proof -
  assume "n \<le> 16"
  then have "unat (of_nat n :: byte) = n" by (simp add: unat_of_nat)
  then show ?thesis by (metis uint_nat)
qed

lemma remove_padding_strip:
  assumes "1 \<le> n" and "n \<le> 16"
  shows "remove_padding (pre @ replicate n (of_nat n)) = Inr pre"
proof -
  have u: "uint (of_nat n :: byte) = int n" using assms by (simp add: uint_of_nat_small)
  have ne: "replicate n (of_nat n :: byte) \<noteq> []" using assms by auto
  have l: "last (pre @ replicate n (of_nat n :: byte)) = of_nat n"
    using ne by simp
  show ?thesis
    using ne assms by (simp add: remove_padding_def Let_def l u list_all_iff)
qed

lemma remove_padding_bad_length:
  assumes "bs \<noteq> []" and "16 < unat (last bs) \<or> length bs < unat (last bs)"
  shows "remove_padding bs = Inl (Raise ValueError (py ''Invalid padding length''))"
proof -
  have "uint (last bs) = int (unat (last bs))" by (rule uint_nat)
  then have "16 < uint (last bs) \<or> int (length bs) - uint (last bs) < 0"
    using assms(2) by linarith
  then show ?thesis using assms(1) by (simp add: remove_padding_def Let_def)
qed

lemma remove_padding_bad_bytes:
  assumes "bs \<noteq> []" and "unat (last bs) \<le> 16" and "unat (last bs) \<le> length bs"
    and "\<exists>b \<in> set (drop (length bs - unat (last bs)) bs). b \<noteq> last bs"
  shows "remove_padding bs = Inl (Raise ValueError (py ''Invalid padding bytes''))"
proof -
  have u: "uint (last bs) = int (unat (last bs))" by (rule uint_nat)
  have s: "nat (int (length bs) - uint (last bs)) = length bs - unat (last bs)"
    using u by linarith
  have r: "\<not> (16 < uint (last bs) \<or> int (length bs) - uint (last bs) < 0)"
    using u assms(2,3) by linarith
  from assms(4) obtain b where b: "b \<in> set (drop (length bs - unat (last bs)) bs)" "b \<noteq> last bs"
    by blast
  then have "uint b \<noteq> uint (last bs)"
    by (metis word_uint_eq_iff)
  with b have "\<not> list_all (\<lambda>pad. uint pad = uint (last bs)) (drop (length bs - unat (last bs)) bs)"
    unfolding list_all_iff by blast
  then show ?thesis
    using assms(1) r by (simp add: remove_padding_def Let_def s)
qed

lemma remove_padding_zero_last:
  assumes "bs \<noteq> []" and "last bs = 0"
  shows "remove_padding bs = Inr bs"
  using assms by (simp add: remove_padding_def Let_def)

text \<open>
  C2. The claim: a non-empty byte sequence whose last byte is 0 is rejected with an
  invalid-padding error and never comes back unchanged. The code accepts it: the range
  check is \<open>padding_len > 16 or padding_start < 0\<close> only, the slice of padding bytes is
  empty, and the input is returned as it is. Evaluated here at the two bytes \<open>41 00\<close>;
  \<open>remove_padding_zero_last\<close> shows the same for every non-empty sequence that ends in
  a zero byte, a decrypted block of sixteen bytes among them.
\<close>

theorem C2_remove_padding_zero_accepted:
  "remove_padding [0x41, 0x00] = Inr [0x41, 0x00]"
  by (simp add: remove_padding_def Let_def)

text \<open>
  C5. A sequence that ends in \<open>n\<close> bytes of value \<open>n\<close>, with \<open>1 \<le> n \<le> 16\<close>, is stripped
  to the bytes before them; a block of sixteen bytes \<open>0x10\<close> gives the empty sequence; a
  non-empty sequence whose last byte exceeds 16 or the length of the sequence fails with
  ``Invalid padding length'', and one whose last byte \<open>n\<close> is in range but whose last
  \<open>n\<close> bytes are not all \<open>n\<close> fails with ``Invalid padding bytes'' (both ValueError).
\<close>

theorem C5_remove_padding_pkcs7:
  "(1 \<le> n \<and> n \<le> 16 \<longrightarrow> remove_padding (pre @ replicate n (of_nat n)) = Inr pre)
   \<and> remove_padding (replicate 16 16) = Inr []
   \<and> (bs \<noteq> [] \<and> (16 < unat (last bs) \<or> length bs < unat (last bs))
        \<longrightarrow> remove_padding bs = Inl (Raise ValueError (py ''Invalid padding length'')))
   \<and> (bs \<noteq> [] \<and> unat (last bs) \<le> 16 \<and> unat (last bs) \<le> length bs
        \<and> (\<exists>b \<in> set (drop (length bs - unat (last bs)) bs). b \<noteq> last bs)
        \<longrightarrow> remove_padding bs = Inl (Raise ValueError (py ''Invalid padding bytes'')))"
proof -
  have "remove_padding ([] @ replicate 16 (of_nat 16)) = Inr []"
    by (rule remove_padding_strip) simp_all
  then have "remove_padding (replicate 16 16) = Inr []" by simp
  then show ?thesis
    using remove_padding_strip remove_padding_bad_length remove_padding_bad_bytes by blast
qed

theorem C5_remove_padding_pkcs7_witness:
  "remove_padding [0x41, 0x42, 0x02, 0x02] = Inr [0x41, 0x42]
   \<and> remove_padding [0x41, 0x11] = Inl (Raise ValueError (py ''Invalid padding length''))
   \<and> remove_padding [0x03, 0x03] = Inl (Raise ValueError (py ''Invalid padding length''))
   \<and> remove_padding [0x41, 0x03, 0x02] = Inl (Raise ValueError (py ''Invalid padding bytes''))"
proof -
  have a: "remove_padding ([0x41, 0x42] @ replicate 2 (of_nat 2)) = Inr [0x41, 0x42]"
    using C5_remove_padding_pkcs7 [of 2 "[0x41, 0x42]" "[]"] by simp
  have b: "remove_padding [0x41, 0x11] = Inl (Raise ValueError (py ''Invalid padding length''))"
    using C5_remove_padding_pkcs7 [of 0 "[]" "[0x41, 0x11]"] by simp
  have c: "remove_padding [0x03, 0x03] = Inl (Raise ValueError (py ''Invalid padding length''))"
    using C5_remove_padding_pkcs7 [of 0 "[]" "[0x03, 0x03]"] by simp
  have d: "remove_padding [0x41, 0x03, 0x02] = Inl (Raise ValueError (py ''Invalid padding bytes''))"
    using C5_remove_padding_pkcs7 [of 0 "[]" "[0x41, 0x03, 0x02]"] by simp
  from a have a': "remove_padding [0x41, 0x42, 0x02, 0x02] = Inr [0x41, 0x42]"
    by (simp add: numeral_2_eq_2)
  from a' b c d show ?thesis by simp
qed

section \<open>The IV validator\<close>

lemma hex_value_ascii: "hex_value c \<noteq> None \<Longrightarrow> c < 128 \<and> \<not> Py_ISSPACE c"
  by (auto simp: hex_value_def Py_ISSPACE_def split: if_splits)

lemma fromhex_loop_digits:
  "\<forall>c \<in> set s. hex_value c \<noteq> None \<Longrightarrow> even (length s) \<Longrightarrow>
     fromhex_loop s pos buf
       = Inr (buf @ map (\<lambda>i. of_nat (the (hex_value (s ! (2 * i))) * 16
                                    + the (hex_value (s ! (2 * i + 1)))))
                      [0..<length s div 2])"
proof (induction s pos buf rule: fromhex_loop.induct)
  case (1 pos buf)
  then show ?case by simp
next
  case (2 c pos buf)
  then show ?case by simp
next
  case (3 c d rest pos buf)
  from "3.prems" obtain t b where t: "hex_value c = Some t" and b: "hex_value d = Some b"
    by auto
  have ns: "\<not> Py_ISSPACE c" using t hex_value_ascii [of c] by simp
  from "3.prems" have r: "\<forall>c \<in> set rest. hex_value c \<noteq> None" "even (length rest)"
    by simp_all
  have l: "length (c # d # rest) div 2 = Suc (length rest div 2)" by simp
  show ?case
    unfolding l map_upt_Suc
    using "3.IH"(2) [OF ns t b r] ns t b by simp
qed

lemma fromhex_digits:
  assumes "\<forall>c \<in> set s. hex_value c \<noteq> None" and "even (length s)"
  shows "fromhex (JStr s)
           = Inr (map (\<lambda>i. of_nat (the (hex_value (s ! (2 * i))) * 16
                                  + the (hex_value (s ! (2 * i + 1)))))
                    [0..<length s div 2])"
proof -
  have "\<not> list_ex (\<lambda>c. c \<ge> 128) s"
    using assms(1) hex_value_ascii by (fastforce simp: list_ex_iff)
  then show ?thesis
    using fromhex_loop_digits [OF assms, of 0 "[]"] by (simp add: fromhex_def)
qed

text \<open>
  C6. A string of 32 hexadecimal digits gives an IV of 16 bytes, byte \<open>i\<close> being the value
  of the digits at positions \<open>2i\<close> and \<open>2i + 1\<close>. Whenever the hex string decodes to a
  number of bytes other than 16, \<open>get_iv\<close> raises ValueError with the text
  ``Invalid IV length: '' and that number; in particular a string of an even number of
  hexadecimal digits other than 32 (30 or 34, say) does.
\<close>

theorem C6_get_iv_length:
  "((\<forall>c \<in> set s. hex_value c \<noteq> None) \<and> length s = 32
      \<longrightarrow> (\<exists>iv. get_iv (JStr s) = Inr iv \<and> length iv = 16
                \<and> (\<forall>i < 16. iv ! i = of_nat (the (hex_value (s ! (2 * i))) * 16
                                             + the (hex_value (s ! (2 * i + 1)))))))
   \<and> (fromhex v = Inr bs \<and> length bs \<noteq> 16
      \<longrightarrow> get_iv v = Inl (Raise ValueError (py ''Invalid IV length: '' @ str_nat (length bs))))
   \<and> ((\<forall>c \<in> set t. hex_value c \<noteq> None) \<and> even (length t) \<and> length t \<noteq> 32
      \<longrightarrow> get_iv (JStr t)
            = Inl (Raise ValueError (py ''Invalid IV length: '' @ str_nat (length t div 2))))"
proof -
  have A: "\<exists>iv. get_iv (JStr s) = Inr iv \<and> length iv = 16
                \<and> (\<forall>i < 16. iv ! i = of_nat (the (hex_value (s ! (2 * i))) * 16
                                             + the (hex_value (s ! (2 * i + 1)))))"
    if a: "(\<forall>c \<in> set s. hex_value c \<noteq> None) \<and> length s = 32"
  proof -
    from a have f: "fromhex (JStr s)
           = Inr (map (\<lambda>i. of_nat (the (hex_value (s ! (2 * i))) * 16
                                  + the (hex_value (s ! (2 * i + 1)))))
                    [0..<16])"
      using fromhex_digits [of s] by simp
    show ?thesis
      unfolding get_iv_def f by (simp del: upt_Suc)
  qed
  have B: "get_iv v = Inl (Raise ValueError (py ''Invalid IV length: '' @ str_nat (length bs)))"
    if "fromhex v = Inr bs \<and> length bs \<noteq> 16"
    using that by (simp add: get_iv_def)
  have C: "get_iv (JStr t)
      = Inl (Raise ValueError (py ''Invalid IV length: '' @ str_nat (length t div 2)))"
    if a: "(\<forall>c \<in> set t. hex_value c \<noteq> None) \<and> even (length t) \<and> length t \<noteq> 32"
  proof -
    from a obtain bs where b: "fromhex (JStr t) = Inr bs" "length bs = length t div 2"
      using fromhex_digits [of t] by auto
    from a have "even (length t)" "length t \<noteq> 32" by simp_all
    then have "length t div 2 \<noteq> 16" by presburger
    with b have "length bs \<noteq> 16" by simp
    with b show ?thesis by (simp add: get_iv_def)
  qed
  show ?thesis using A B C by blast
qed

theorem C6_get_iv_length_witness:
  "get_iv (JStr (py ''000102030405060708090a0b0c0d0e0f''))
     = Inr [0x00, 0x01, 0x02, 0x03, 0x04, 0x05, 0x06, 0x07,
            0x08, 0x09, 0x0a, 0x0b, 0x0c, 0x0d, 0x0e, 0x0f]
   \<and> get_iv (JStr (py ''000102030405060708090a0b0c0d0e''))
       = Inl (Raise ValueError (py ''Invalid IV length: 15''))
   \<and> get_iv (JStr (py ''000102030405060708090a0b0c0d0e0f10''))
       = Inl (Raise ValueError (py ''Invalid IV length: 17''))"
proof -
  obtain iv where g: "get_iv (JStr (py ''000102030405060708090a0b0c0d0e0f'')) = Inr iv"
    and l: "length iv = 16"
    and n: "\<forall>i < 16. iv ! i
              = of_nat (the (hex_value (py ''000102030405060708090a0b0c0d0e0f'' ! (2 * i))) * 16
                        + the (hex_value (py ''000102030405060708090a0b0c0d0e0f'' ! (2 * i + 1))))"
    using C6_get_iv_length [of "py ''000102030405060708090a0b0c0d0e0f''" JNull "[]" "[]"]
    by (auto simp: py_def hex_value_def)
  have u: "[0..<16] = [0, 1, 2, 3, 4, 5, 6, 7, 8, 9, 10, 11, 12, 13, 14, 15 :: nat]"
    by (simp add: upt_rec)
  have "iv = map ((!) iv) [0..<16]"
    using l map_nth [of iv] by simp
  also have "\<dots> = [0x00, 0x01, 0x02, 0x03, 0x04, 0x05, 0x06, 0x07,
                   0x08, 0x09, 0x0a, 0x0b, 0x0c, 0x0d, 0x0e, 0x0f]"
    unfolding u using n by (simp add: py_def hex_value_def)
  finally have a: "get_iv (JStr (py ''000102030405060708090a0b0c0d0e0f''))
     = Inr [0x00, 0x01, 0x02, 0x03, 0x04, 0x05, 0x06, 0x07,
            0x08, 0x09, 0x0a, 0x0b, 0x0c, 0x0d, 0x0e, 0x0f]"
    using g by simp
  have b: "get_iv (JStr (py ''000102030405060708090a0b0c0d0e''))
       = Inl (Raise ValueError (py ''Invalid IV length: '' @ str_nat 15))"
    using C6_get_iv_length [of "[]" JNull "[]" "py ''000102030405060708090a0b0c0d0e''"]
    by (simp add: py_def hex_value_def)
  have c: "get_iv (JStr (py ''000102030405060708090a0b0c0d0e0f10''))
       = Inl (Raise ValueError (py ''Invalid IV length: '' @ str_nat 17))"
    using C6_get_iv_length [of "[]" JNull "[]" "py ''000102030405060708090a0b0c0d0e0f10''"]
    by (simp add: py_def hex_value_def)
  from a b c show ?thesis by (simp add: py_def)
qed

section \<open>The seed decoder\<close>

lemma cons_res_Inl: "cons_res c r = Inl e \<Longrightarrow> r = Inl e"
  by (cases r) (simp_all add: cons_res_def)

lemma utf8_loop_error: "utf8_loop bs need acc lo hi = Inl e \<Longrightarrow> e = decode_error"
proof (induction bs need acc lo hi rule: utf8_loop.induct)
  case (1 need acc lo hi)
  then show ?case by (simp split: if_splits)
next
  case (2 b rest need acc lo hi)
  show ?case
  proof (cases "need = 0")
    case True
    with "2.prems" "2.IH"(1-4) show ?thesis
      by (auto split: if_splits dest!: cons_res_Inl)
  next
    case False
    with "2.prems" "2.IH"(5,6) show ?thesis
      by (auto split: if_splits dest!: cons_res_Inl)
  qed
qed

lemma bytes_decode_error: "bytes_decode bs = Inl e \<Longrightarrow> exc_class e = UnicodeDecodeError"
  using utf8_loop_error [of bs 0 0 "0x80" "0xBF" e]
  by (simp add: bytes_decode_def decode_error_def)

lemma collect_py_chr:
  "\<forall>i \<in> set xs. 0 \<le> i \<and> i < 0x110000 \<Longrightarrow> collect py_chr xs = Inr (map nat xs)"
  by (induction xs) (simp_all add: py_chr_def)

lemma printable_chr:
  "collect py_chr (filter (\<lambda>b. 32 \<le> b \<and> b \<le> 126) (map uint bs))
     = Inr (map nat (filter (\<lambda>b. 32 \<le> b \<and> b \<le> 126) (map uint bs)))"
  by (rule collect_py_chr) auto

lemma printable_unat:
  "map nat (filter (\<lambda>b. 32 \<le> b \<and> b \<le> 126) (map uint bs))
     = map unat (filter (\<lambda>b. 32 \<le> unat b \<and> unat b \<le> 126) (bs :: byte list))"
proof (induction bs)
  case Nil
  then show ?case by simp
next
  case (Cons b bs)
  have "(32 \<le> uint b \<and> uint b \<le> 126) = (32 \<le> unat b \<and> unat b \<le> 126)"
    using uint_nat [of b] by linarith
  moreover have "nat (uint b) = unat b" by (metis unat_eq_nat_uint)
  ultimately show ?case using Cons by simp
qed

text \<open>
  C8. The seed decoder returns a string for every byte sequence: the only exception the
  UTF-8 decoder raises is the UnicodeDecodeError its \<open>except\<close> clause catches, \<open>chr\<close> is
  applied to values between 32 and 126 only, and nothing else in the function can raise.
\<close>

theorem C8_decode_decrypted_seed_total:
  "\<exists>s. decode_decrypted_seed L bs = Inr s"
proof (cases "bytes_decode bs")
  case (Inl e)
  then have "exc_class e = UnicodeDecodeError" by (rule bytes_decode_error)
  with Inl show ?thesis
    by (simp add: decode_decrypted_seed_def printable_chr split: option.split)
next
  case (Inr t)
  then show ?thesis by (simp add: decode_decrypted_seed_def)
qed

lemma takeWhile_long_prefix:
  assumes "10 \<le> length (takeWhile P xs)"
  shows "list_all P (take 10 xs)"
proof -
  have "take 10 xs = take 10 (takeWhile P xs @ dropWhile P xs)" by simp
  also have "\<dots> = take 10 (takeWhile P xs)"
    using assms by (simp del: takeWhile_dropWhile_id)
  finally have "set (take 10 xs) \<subseteq> set (takeWhile P xs)"
    by (metis set_take_subset)
  then show ?thesis
    by (auto simp: list_all_iff dest: set_takeWhileD)
qed

lemma search_base32_leftmost:
  assumes "\<forall>c \<in> set run. base32_char c" and "10 \<le> length run"
    and "post = [] \<or> \<not> base32_char (hd post)"
    and "pre = [] \<or> \<not> base32_char (last pre)"
    and "\<forall>i. i + 10 \<le> length pre \<longrightarrow> \<not> list_all base32_char (take 10 (drop i pre))"
  shows "search_base32 (pre @ run @ post) = Some run"
  using assms(4,5)
proof (induction pre)
  case Nil
  have tp: "takeWhile base32_char post = []"
    using assms(3) by (cases post) auto
  have tw: "takeWhile base32_char (run @ post) = run"
    using assms(1) tp by (simp add: takeWhile_append2)
  obtain c cs where rp: "run @ post = c # cs"
    using assms(2) by (cases run) auto
  have "search_base32 (c # cs) = Some run"
    using tw assms(2) unfolding rp by simp
  then show ?case by (simp add: rp)
next
  case (Cons a pre')
  have nb: "\<not> base32_char (last (a # pre'))" using Cons.prems(1) by simp
  have mem: "last (a # pre') \<in> set (a # pre')" by (rule last_in_set) simp
  have tw: "takeWhile base32_char ((a # pre') @ run @ post) = takeWhile base32_char (a # pre')"
    using mem nb by (rule takeWhile_append1)
  have short: "\<not> 10 \<le> length (takeWhile base32_char (a # pre'))"
  proof
    assume l: "10 \<le> length (takeWhile base32_char (a # pre'))"
    then have "list_all base32_char (take 10 (a # pre'))" by (rule takeWhile_long_prefix)
    moreover have "10 \<le> length (a # pre')"
      using l length_takeWhile_le [of base32_char "a # pre'"] by linarith
    ultimately show False using Cons.prems(2) [rule_format, of 0] by simp
  qed
  have p1: "pre' = [] \<or> \<not> base32_char (last pre')"
    using Cons.prems(1) by (cases pre') auto
  have p2: "\<forall>i. i + 10 \<le> length pre' \<longrightarrow> \<not> list_all base32_char (take 10 (drop i pre'))"
  proof (intro allI impI)
    fix i assume "i + 10 \<le> length pre'"
    then have "Suc i + 10 \<le> length (a # pre')" by simp
    from Cons.prems(2) [rule_format, OF this]
    show "\<not> list_all base32_char (take 10 (drop i pre'))" by simp
  qed
  have "search_base32 (a # (pre' @ run @ post)) = search_base32 (pre' @ run @ post)"
    using tw short by (simp del: takeWhile.simps)
  then show ?case using Cons.IH [OF p1 p2] by simp
qed

text \<open>
  C3. The claim: when the upper-cased printable-ASCII string of an input that is not valid
  UTF-8 holds a run of ten or more Base32 characters, the longest such run is returned.
  \<open>re.search\<close> returns the leftmost match, so the code returns the first run of ten or
  more characters, whole, even when a longer run follows. As amended: if that string is
  \<open>pre @ run @ post\<close>, where \<open>run\<close> consists of ten or more Base32 characters, is not
  continued on either side, and \<open>pre\<close> holds no ten consecutive Base32 characters, then
  \<open>run\<close> is returned.
\<close>

theorem C3_decode_decrypted_seed_leftmost_run:
  assumes "bytes_decode bs = Inl e"
    and "str_upper L (map unat (filter (\<lambda>b. 32 \<le> unat b \<and> unat b \<le> 126) bs)) = pre @ run @ post"
    and "\<forall>c \<in> set run. base32_char c" and "10 \<le> length run"
    and "post = [] \<or> \<not> base32_char (hd post)"
    and "pre = [] \<or> \<not> base32_char (last pre)"
    and "\<forall>i. i + 10 \<le> length pre \<longrightarrow> \<not> list_all base32_char (take 10 (drop i pre))"
  shows "decode_decrypted_seed L bs = Inr run"
proof -
  have c: "exc_class e = UnicodeDecodeError" using assms(1) by (rule bytes_decode_error)
  have s: "search_base32 (pre @ run @ post) = Some run"
    using assms(3-7) by (rule search_base32_leftmost)
  show ?thesis
    using assms(1) c s
    by (simp add: decode_decrypted_seed_def printable_chr printable_unat assms(2))
qed

text \<open>
  The claim as stated fails on the byte \<open>0xFF\<close> followed by ten \<open>A\<close>, an exclamation mark
  and twelve \<open>B\<close>: the twelve \<open>B\<close> are the longest run, the ten \<open>A\<close> are returned.
\<close>

theorem C3_longest_run_counterexample:
  "bytes_decode (0xFF # pyb ''AAAAAAAAAA!BBBBBBBBBBBB'') = Inl decode_error
   \<and> str_upper sample_libs
        (map unat (filter (\<lambda>b. 32 \<le> unat b \<and> unat b \<le> 126)
                     (0xFF # pyb ''AAAAAAAAAA!BBBBBBBBBBBB'')))
      = py ''AAAAAAAAAA'' @ py ''!'' @ py ''BBBBBBBBBBBB''
   \<and> list_all base32_char (py ''BBBBBBBBBBBB'')
   \<and> length (py ''AAAAAAAAAA'') < length (py ''BBBBBBBBBBBB'')
   \<and> decode_decrypted_seed sample_libs (0xFF # pyb ''AAAAAAAAAA!BBBBBBBBBBBB'')
      = Inr (py ''AAAAAAAAAA'')"
proof -
  have a: "bytes_decode (0xFF # pyb ''AAAAAAAAAA!BBBBBBBBBBBB'') = Inl decode_error"
    by (simp add: bytes_decode_def pyb_def)
  have b: "str_upper sample_libs
        (map unat (filter (\<lambda>b. 32 \<le> unat b \<and> unat b \<le> 126)
                     (0xFF # pyb ''AAAAAAAAAA!BBBBBBBBBBBB'')))
      = py ''AAAAAAAAAA!BBBBBBBBBBBB''"
    by (simp add: py_def pyb_def str_upper_def upper_char_def)
  have c: "search_base32 (py ''AAAAAAAAAA!BBBBBBBBBBBB'') = Some (py ''AAAAAAAAAA'')"
    by (simp add: py_def base32_char_def)
  have d: "decode_decrypted_seed sample_libs (0xFF # pyb ''AAAAAAAAAA!BBBBBBBBBBBB'')
      = Inr (py ''AAAAAAAAAA'')"
    using a b c
    by (simp add: decode_decrypted_seed_def decode_error_def printable_chr printable_unat)
  have e: "list_all base32_char (py ''BBBBBBBBBBBB'')"
    by (simp add: py_def base32_char_def)
  have f: "py ''AAAAAAAAAA!BBBBBBBBBBBB'' = py ''AAAAAAAAAA'' @ py ''!'' @ py ''BBBBBBBBBBBB''"
    by (simp add: py_def)
  have g: "length (py ''AAAAAAAAAA'') < length (py ''BBBBBBBBBBBB'')"
    by (simp add: py_def)
  show ?thesis using a b d e f g by simp
qed

theorem C3_decode_decrypted_seed_leftmost_run_witness:
  "decode_decrypted_seed sample_libs (0xFF # pyb ''ab!mfxhi2bpmvzxi?zz'') = Inr (py ''MFXHI2BPMVZXI'')"
proof (rule C3_decode_decrypted_seed_leftmost_run
         [where e = decode_error and pre = "py ''AB!''" and post = "py ''?ZZ''"])
  show "bytes_decode (0xFF # pyb ''ab!mfxhi2bpmvzxi?zz'') = Inl decode_error"
    by (simp add: bytes_decode_def pyb_def)
  show "str_upper sample_libs
          (map unat (filter (\<lambda>b. 32 \<le> unat b \<and> unat b \<le> 126) (0xFF # pyb ''ab!mfxhi2bpmvzxi?zz'')))
        = py ''AB!'' @ py ''MFXHI2BPMVZXI'' @ py ''?ZZ''"
    by (simp add: py_def pyb_def str_upper_def upper_char_def)
  show "\<forall>c \<in> set (py ''MFXHI2BPMVZXI''). base32_char c"
    by (simp add: py_def base32_char_def)
  show "10 \<le> length (py ''MFXHI2BPMVZXI'')" by (simp add: py_def)
  show "py ''?ZZ'' = [] \<or> \<not> base32_char (hd (py ''?ZZ''))"
    by (simp add: py_def base32_char_def)
  show "py ''AB!'' = [] \<or> \<not> base32_char (last (py ''AB!''))"
    by (simp add: py_def base32_char_def)
  show "\<forall>i. i + 10 \<le> length (py ''AB!'') \<longrightarrow> \<not> list_all base32_char (take 10 (drop i (py ''AB!'')))"
    by (simp add: py_def)
qed

section \<open>The Base64 decoder\<close>

lemma a2b_base64_filter:
  "a2b_base64 s q l p out
     = a2b_base64 (filter (\<lambda>c. c = 61 \<or> table_a2b_base64 c \<noteq> None) s) q l p out"
proof (induction s arbitrary: q l p out)
  case Nil
  then show ?case by simp
next
  case (Cons c s)
  show ?case
  proof (cases "c = 61 \<or> table_a2b_base64 c \<noteq> None")
    case True
    then show ?thesis by (auto simp: Cons.IH)
  next
    case False
    then show ?thesis by (simp add: Cons.IH)
  qed
qed

lemma a2b_base64_bad_count:
  "61 \<notin> set s \<Longrightarrow> q < 4
     \<Longrightarrow> (q + length (filter (\<lambda>c. table_a2b_base64 c \<noteq> None) s)) mod 4 \<noteq> 0
     \<Longrightarrow> \<exists>m. a2b_base64 s q l p out = Inl (Raise BinasciiError m)"
proof (induction s arbitrary: q l p out)
  case Nil
  then show ?case by auto
next
  case (Cons c s)
  from Cons.prems(1) have c: "c \<noteq> 61" and s: "61 \<notin> set s" by auto
  show ?case
  proof (cases "table_a2b_base64 c")
    case None
    with Cons.prems have "(q + length (filter (\<lambda>c. table_a2b_base64 c \<noteq> None) s)) mod 4 \<noteq> 0"
      by simp
    from Cons.IH [OF s Cons.prems(2) this] None c show ?thesis by simp
  next
    case (Some v)
    with Cons.prems(3)
    have n: "(q + Suc (length (filter (\<lambda>c. table_a2b_base64 c \<noteq> None) s))) mod 4 \<noteq> 0"
      by simp
    from Cons.prems(2) consider "q = 0" | "q = 1" | "q = 2" | "q = 3" by linarith
    then show ?thesis
    proof cases
      case 1
      with n have "(1 + length (filter (\<lambda>c. table_a2b_base64 c \<noteq> None) s)) mod 4 \<noteq> 0" by simp
      from Cons.IH [OF s _ this] 1 Some c show ?thesis by simp
    next
      case 2
      with n have "(2 + length (filter (\<lambda>c. table_a2b_base64 c \<noteq> None) s)) mod 4 \<noteq> 0" by simp
      from Cons.IH [OF s _ this] 2 Some c show ?thesis by simp
    next
      case 3
      with n have "(3 + length (filter (\<lambda>c. table_a2b_base64 c \<noteq> None) s)) mod 4 \<noteq> 0" by simp
      from Cons.IH [OF s _ this] 3 Some c show ?thesis by simp
    next
      case 4
      with n have "(0 + length (filter (\<lambda>c. table_a2b_base64 c \<noteq> None) s)) mod 4 \<noteq> 0"
        by (simp add: mod_Suc split: if_splits)
      from Cons.IH [OF s _ this] 4 Some c show ?thesis by simp
    qed
  qed
qed

lemma a2b_base64_good_count:
  "61 \<notin> set s \<Longrightarrow> q < 4
     \<Longrightarrow> (q + length (filter (\<lambda>c. table_a2b_base64 c \<noteq> None) s)) mod 4 = 0
     \<Longrightarrow> \<exists>bs. a2b_base64 s q l p out = Inr bs"
proof (induction s arbitrary: q l p out)
  case Nil
  then show ?case by auto
next
  case (Cons c s)
  from Cons.prems(1) have c: "c \<noteq> 61" and s: "61 \<notin> set s" by auto
  show ?case
  proof (cases "table_a2b_base64 c")
    case None
    with Cons.prems have "(q + length (filter (\<lambda>c. table_a2b_base64 c \<noteq> None) s)) mod 4 = 0"
      by simp
    from Cons.IH [OF s Cons.prems(2) this] None c show ?thesis by simp
  next
    case (Some v)
    with Cons.prems(3)
    have n: "(q + Suc (length (filter (\<lambda>c. table_a2b_base64 c \<noteq> None) s))) mod 4 = 0"
      by simp
    from Cons.prems(2) consider "q = 0" | "q = 1" | "q = 2" | "q = 3" by linarith
    then show ?thesis
    proof cases
      case 1
      with n have "(1 + length (filter (\<lambda>c. table_a2b_base64 c \<noteq> None) s)) mod 4 = 0" by simp
      from Cons.IH [OF s _ this] 1 Some c show ?thesis by simp
    next
      case 2
      with n have "(2 + length (filter (\<lambda>c. table_a2b_base64 c \<noteq> None) s)) mod 4 = 0" by simp
      from Cons.IH [OF s _ this] 2 Some c show ?thesis by simp
    next
      case 3
      with n have "(3 + length (filter (\<lambda>c. table_a2b_base64 c \<noteq> None) s)) mod 4 = 0" by simp
      from Cons.IH [OF s _ this] 3 Some c show ?thesis by simp
    next
      case 4
      with n have "(0 + length (filter (\<lambda>c. table_a2b_base64 c \<noteq> None) s)) mod 4 = 0"
        by (simp add: mod_Suc split: if_splits)
      from Cons.IH [OF s _ this] 4 Some c show ?thesis by simp
    qed
  qed
qed

text \<open>
  C4. The claim: every string that is not well-formed Base64, in particular one with a
  character outside the alphabet, makes \<open>decode_base64_seed\<close> fail. The code calls
  \<open>base64.b64decode\<close> without \<open>validate=True\<close>, which drops such characters. As amended:
  an ASCII string decodes exactly as the string left after dropping its characters outside
  the alphabet does; a string with a character outside ASCII fails (ValueError); and a
  string of ASCII characters without \<open>=\<close> fails (\<open>binascii.Error\<close>) when its number of
  alphabet characters is not a multiple of four, and decodes when it is. Nothing is said
  of how strings with \<open>=\<close> fare beyond the first part.
\<close>

theorem C4_decode_base64_seed_discards:
  "((\<forall>c \<in> set s. c < 128)
      \<longrightarrow> decode_base64_seed (JStr s)
            = decode_base64_seed (JStr (filter (\<lambda>c. c = 61 \<or> table_a2b_base64 c \<noteq> None) s)))
   \<and> ((\<exists>c \<in> set s. c \<ge> 128)
      \<longrightarrow> decode_base64_seed (JStr s)
            = Inl (Raise ValueError (py ''string argument should contain only ASCII characters'')))
   \<and> ((\<forall>c \<in> set s. c < 128) \<and> 61 \<notin> set s
        \<and> length (filter (\<lambda>c. table_a2b_base64 c \<noteq> None) s) mod 4 \<noteq> 0
      \<longrightarrow> (\<exists>m. decode_base64_seed (JStr s) = Inl (Raise BinasciiError m)))
   \<and> ((\<forall>c \<in> set s. c < 128) \<and> 61 \<notin> set s
        \<and> length (filter (\<lambda>c. table_a2b_base64 c \<noteq> None) s) mod 4 = 0
      \<longrightarrow> (\<exists>bs. decode_base64_seed (JStr s) = Inr bs))"
proof (intro conjI impI)
  assume a: "\<forall>c \<in> set s. c < 128"
  then have "\<not> list_ex (\<lambda>c. c \<ge> 128) s" by (auto simp: list_ex_iff)
  moreover from a
  have "\<not> list_ex (\<lambda>c. c \<ge> 128) (filter (\<lambda>c. c = 61 \<or> table_a2b_base64 c \<noteq> None) s)"
    by (auto simp: list_ex_iff)
  ultimately show "decode_base64_seed (JStr s)
      = decode_base64_seed (JStr (filter (\<lambda>c. c = 61 \<or> table_a2b_base64 c \<noteq> None) s))"
    using a2b_base64_filter [of s 0 0 0 "[]"]
    by (simp add: decode_base64_seed_def b64decode_def)
next
  assume "\<exists>c \<in> set s. c \<ge> 128"
  then have "list_ex (\<lambda>c. c \<ge> 128) s" by (simp add: list_ex_iff)
  then show "decode_base64_seed (JStr s)
      = Inl (Raise ValueError (py ''string argument should contain only ASCII characters''))"
    by (simp add: decode_base64_seed_def b64decode_def)
next
  assume a: "(\<forall>c \<in> set s. c < 128) \<and> 61 \<notin> set s
        \<and> length (filter (\<lambda>c. table_a2b_base64 c \<noteq> None) s) mod 4 \<noteq> 0"
  then have n: "\<not> list_ex (\<lambda>c. c \<ge> 128) s" by (auto simp: list_ex_iff)
  from a have "(0 + length (filter (\<lambda>c. table_a2b_base64 c \<noteq> None) s)) mod 4 \<noteq> 0" by simp
  from a2b_base64_bad_count [OF _ _ this, of 0 0 "[]"] a
  obtain m where "a2b_base64 s 0 0 0 [] = Inl (Raise BinasciiError m)" by auto
  with n show "\<exists>m. decode_base64_seed (JStr s) = Inl (Raise BinasciiError m)"
    by (simp add: decode_base64_seed_def b64decode_def)
next
  assume a: "(\<forall>c \<in> set s. c < 128) \<and> 61 \<notin> set s
        \<and> length (filter (\<lambda>c. table_a2b_base64 c \<noteq> None) s) mod 4 = 0"
  then have n: "\<not> list_ex (\<lambda>c. c \<ge> 128) s" by (auto simp: list_ex_iff)
  from a have "(0 + length (filter (\<lambda>c. table_a2b_base64 c \<noteq> None) s)) mod 4 = 0" by simp
  from a2b_base64_good_count [OF _ _ this, of 0 0 "[]"] a
  obtain bs where "a2b_base64 s 0 0 0 [] = Inr bs" by auto
  with n show "\<exists>bs. decode_base64_seed (JStr s) = Inr bs"
    by (simp add: decode_base64_seed_def b64decode_def)
qed

text \<open>
  The claim as stated fails on \<open>QUJD!\<close>: the exclamation mark is outside the alphabet,
  and the call returns the three bytes \<open>ABC\<close> that \<open>QUJD\<close> encodes.
\<close>

theorem C4_filtered_input_counterexample:
  "table_a2b_base64 33 = None \<and> (33::nat) \<noteq> 61
   \<and> py ''QUJD!'' = py ''QUJD'' @ [33]
   \<and> decode_base64_seed (JStr (py ''QUJD!'')) = Inr (pyb ''ABC'')"
  by (simp add: decode_base64_seed_def b64decode_def table_a2b_base64_def py_def pyb_def)

theorem C4_decode_base64_seed_discards_witness:
  "decode_base64_seed (JStr (py ''QU JD'')) = decode_base64_seed (JStr (py ''QUJD''))
   \<and> decode_base64_seed (JStr [81, 233])
       = Inl (Raise ValueError (py ''string argument should contain only ASCII characters''))
   \<and> (\<exists>m. decode_base64_seed (JStr (py ''QUJDQ'')) = Inl (Raise BinasciiError m))
   \<and> (\<exists>bs. decode_base64_seed (JStr (py ''QU JD'')) = Inr bs)"
proof -
  have a: "decode_base64_seed (JStr (py ''QU JD''))
      = decode_base64_seed (JStr (filter (\<lambda>c. c = 61 \<or> table_a2b_base64 c \<noteq> None) (py ''QU JD'')))"
    using C4_decode_base64_seed_discards [of "py ''QU JD''"] by (simp add: py_def)
  have a': "filter (\<lambda>c. c = 61 \<or> table_a2b_base64 c \<noteq> None) (py ''QU JD'') = py ''QUJD''"
    by (simp add: py_def table_a2b_base64_def)
  have b: "decode_base64_seed (JStr [81, 233])
       = Inl (Raise ValueError (py ''string argument should contain only ASCII characters''))"
    using C4_decode_base64_seed_discards [of "[81, 233]"] by simp
  have c: "\<exists>m. decode_base64_seed (JStr (py ''QUJDQ'')) = Inl (Raise BinasciiError m)"
    using C4_decode_base64_seed_discards [of "py ''QUJDQ''"]
    by (simp add: py_def table_a2b_base64_def)
  have "(\<forall>c \<in> set (py ''QU JD''). c < 128) \<and> 61 \<notin> set (py ''QU JD'')
        \<and> length (filter (\<lambda>c. table_a2b_base64 c \<noteq> None) (py ''QU JD'')) mod 4 = 0"
    by (simp add: py_def table_a2b_base64_def)
  with C4_decode_base64_seed_discards
         [of "py ''QU JD''", THEN conjunct2, THEN conjunct2, THEN conjunct2]
  have d: "\<exists>bs. decode_base64_seed (JStr (py ''QU JD'')) = Inr bs"
    by (rule mp)
  from a a' b c d show ?thesis by simp
qed

section \<open>The batch\<close>

lemma dict_item_present: "map_of d k \<noteq> None \<Longrightarrow> dict_item d k = Inr (the (map_of d k))"
  by (auto simp: dict_item_def)

lemma dict_item_Inr: "dict_item d k = Inr v \<Longrightarrow> map_of d k \<noteq> None"
  by (auto simp: dict_item_def split: option.splits)

lemma required_keys_iff:
  "(\<forall>k \<in> set required_keys. map_of d k \<noteq> None) \<longleftrightarrow>
     map_of d (py ''key_derivation_iterations'') \<noteq> None \<and> map_of d (py ''encrypted_seed'') \<noteq> None
     \<and> map_of d (py ''salt'') \<noteq> None \<and> map_of d (py ''account_type'') \<noteq> None
     \<and> map_of d (py ''name'') \<noteq> None \<and> map_of d (py ''issuer'') \<noteq> None
     \<and> map_of d (py ''digits'') \<noteq> None \<and> map_of d (py ''logo'') \<noteq> None
     \<and> map_of d (py ''unique_id'') \<noteq> None"
  by (simp add: required_keys_def)

lemma token_arguments_present:
  assumes "\<forall>k \<in> set required_keys. map_of d k \<noteq> None"
  shows "token_arguments d
           = Inr (dict_get d (py ''unique_iv'') (JStr DEFAULT_IV),
                  the (map_of d (py ''key_derivation_iterations'')),
                  the (map_of d (py ''encrypted_seed'')), the (map_of d (py ''salt'')))"
  using assms unfolding required_keys_iff
  by (simp add: token_arguments_def dict_item_present)

lemma output_record_present:
  assumes "\<forall>k \<in> set required_keys. map_of d k \<noteq> None"
  shows "output_record d seed
           = Inr (JObj [(py ''account_type'', the (map_of d (py ''account_type''))),
                        (py ''name'', the (map_of d (py ''name''))),
                        (py ''issuer'', the (map_of d (py ''issuer''))),
                        (py ''decrypted_seed'', JStr seed),
                        (py ''digits'', the (map_of d (py ''digits''))),
                        (py ''logo'', the (map_of d (py ''logo''))),
                        (py ''unique_id'', the (map_of d (py ''unique_id'')))])"
  using assms unfolding required_keys_iff
  by (simp add: output_record_def dict_item_present)

lemma snd_decrypt_token:
  "snd (decrypt_token L r es salt pw iv)
     = (case token_pipeline L r es salt pw iv of
          Inr seed \<Rightarrow> seed | Inl e \<Rightarrow> py ''Decryption failed: '' @ str_exc e)"
  by (simp add: decrypt_token_def split: sum.split)

lemma decrypt_loop_step:
  assumes "json_dumps L (JObj d) = None"
    and "\<forall>k \<in> set required_keys. map_of d k \<noteq> None"
  shows "decrypt_loop L pw (JObj d # rest) tr acc
           = decrypt_loop L pw rest
               \<lparr>printed = printed tr
                   @ fst (decrypt_token L (the (map_of d (py ''key_derivation_iterations'')))
                            (the (map_of d (py ''encrypted_seed''))) (the (map_of d (py ''salt''))) pw
                            (dict_get d (py ''unique_iv'') (JStr DEFAULT_IV))),
                decrypted = decrypted tr @ [expected_seed L pw d]\<rparr>
               (acc @ [expected_record L pw d])"
  by (simp add: assms(1) token_arguments_present [OF assms(2)] output_record_present [OF assms(2)]
        Let_def snd_decrypt_token expected_seed_def expected_record_def dict_get_def DEFAULT_IV_def)

lemma decrypt_loop_prefix:
  "\<forall>d \<in> set ds. json_dumps L (JObj d) = None \<and> (\<forall>k \<in> set required_keys. map_of d k \<noteq> None) \<Longrightarrow>
     \<exists>p. decrypt_loop L pw (map JObj ds @ rest) tr acc
           = decrypt_loop L pw rest
               \<lparr>printed = p, decrypted = decrypted tr @ map (expected_seed L pw) ds\<rparr>
               (acc @ map (expected_record L pw) ds)"
proof (induction ds arbitrary: tr acc)
  case Nil
  have "tr = \<lparr>printed = printed tr, decrypted = decrypted tr\<rparr>" by simp
  then show ?case by (metis append_Nil append_Nil2 list.map(1))
next
  case (Cons d ds)
  from Cons.prems have d: "json_dumps L (JObj d) = None"
    "\<forall>k \<in> set required_keys. map_of d k \<noteq> None"
    and ds: "\<forall>d \<in> set ds. json_dumps L (JObj d) = None
               \<and> (\<forall>k \<in> set required_keys. map_of d k \<noteq> None)"
    by simp_all
  obtain p where p:
    "decrypt_loop L pw (map JObj ds @ rest)
       \<lparr>printed = printed tr
           @ fst (decrypt_token L (the (map_of d (py ''key_derivation_iterations'')))
                    (the (map_of d (py ''encrypted_seed''))) (the (map_of d (py ''salt''))) pw
                    (dict_get d (py ''unique_iv'') (JStr DEFAULT_IV))),
        decrypted = decrypted tr @ [expected_seed L pw d]\<rparr>
       (acc @ [expected_record L pw d])
     = decrypt_loop L pw rest
         \<lparr>printed = p,
          decrypted = (decrypted tr @ [expected_seed L pw d]) @ map (expected_seed L pw) ds\<rparr>
         ((acc @ [expected_record L pw d]) @ map (expected_record L pw) ds)"
    using Cons.IH [OF ds, of "\<lparr>printed = printed tr
           @ fst (decrypt_token L (the (map_of d (py ''key_derivation_iterations'')))
                    (the (map_of d (py ''encrypted_seed''))) (the (map_of d (py ''salt''))) pw
                    (dict_get d (py ''unique_iv'') (JStr DEFAULT_IV))),
        decrypted = decrypted tr @ [expected_seed L pw d]\<rparr>" "acc @ [expected_record L pw d]"]
    by auto
  show ?case
    unfolding list.map append_Cons decrypt_loop_step [OF d] p
    by (intro exI [of _ p]) simp
qed


lemma get_iv_default: "get_iv (JStr (py ''00000000000000000000000000000000'')) = Inr (replicate 16 0)"
proof -
  have "replicate 16 (0 :: byte) = [0, 0, 0, 0, 0, 0, 0, 0, 0, 0, 0, 0, 0, 0, 0, 0]"
    by (simp add: eval_nat_numeral)
  then show ?thesis
    by (simp add: get_iv_def fromhex_def py_def hex_value_def Py_ISSPACE_def)
qed

lemma sample_base64_ok: "decode_base64_seed (JStr (py ''QUJDAgI='')) = Inr [0x41, 0x42, 0x43, 0x02, 0x02]"
  by (simp add: decode_base64_seed_def b64decode_def table_a2b_base64_def py_def)

lemma sample_base64_bad:
  "decode_base64_seed (JStr (py ''Q''))
     = Inl (Raise BinasciiError
              (py ''Invalid base64-encoded string: number of data characters (1) cannot be 1 more than a multiple of 4''))"
  by (simp add: decode_base64_seed_def b64decode_def table_a2b_base64_def py_def)

lemma sample_derive_key:
  "derive_key sample_libs (JInt 1000) (JStr (py ''salt'')) (py ''pw'') = Inr (replicate 32 0)"
  by (simp add: derive_key_def str_encode_def is_surrogate_def sample_libs_def py_def)

lemma sample_decrypt_data: "decrypt_data sample_libs data key iv = Inr data"
  by (simp add: decrypt_data_def sample_libs_def)

lemma sample_remove_padding: "remove_padding [0x41, 0x42, 0x43, 0x02, 0x02] = Inr [0x41, 0x42, 0x43]"
  by (simp add: remove_padding_def Let_def)

lemma sample_decode_seed: "decode_decrypted_seed sample_libs [0x41, 0x42, 0x43] = Inr (py ''ABC'')"
  by (simp add: decode_decrypted_seed_def bytes_decode_def cons_res_def str_upper_def
        upper_char_def remove_spaces_def match_base32_def base32_char_def py_def)

lemma sample_pipeline_ok:
  "token_pipeline sample_libs (JInt 1000) (JStr (py ''QUJDAgI='')) (JStr (py ''salt'')) (py ''pw'')
     (JStr (py ''00000000000000000000000000000000'')) = Inr (py ''ABC'')"
  by (simp add: token_pipeline_def sample_base64_ok get_iv_default sample_derive_key
        sample_decrypt_data sample_remove_padding sample_decode_seed)

lemma sample_pipeline_bad:
  "token_pipeline sample_libs (JInt 1000) (JStr (py ''Q'')) (JStr (py ''salt'')) (py ''pw'')
     (JStr (py ''00000000000000000000000000000000''))
     = Inl (Raise BinasciiError
              (py ''Invalid base64-encoded string: number of data characters (1) cannot be 1 more than a multiple of 4''))"
  by (simp add: token_pipeline_def sample_base64_bad)

lemma sample_json_dumps: "json_dumps sample_libs v = None"
  by (simp add: sample_libs_def)

lemma sample_token_keys: "\<forall>k \<in> set required_keys. map_of (sample_token b64) k \<noteq> None"
  by (simp add: required_keys_def sample_token_def py_def)

lemma sample_token_lookup:
  "map_of (sample_token b64) (py ''key_derivation_iterations'') = Some (JInt 1000)"
  "map_of (sample_token b64) (py ''encrypted_seed'') = Some (JStr (py b64))"
  "map_of (sample_token b64) (py ''salt'') = Some (JStr (py ''salt''))"
  "map_of (sample_token b64) (py ''unique_iv'') = None"
  by (simp_all add: sample_token_def py_def)

lemma sample_seed_ok: "expected_seed sample_libs (py ''pw'') (sample_token ''QUJDAgI='') = py ''ABC''"
  by (simp add: expected_seed_def sample_token_lookup sample_pipeline_ok)




text \<open>
  C7. For a token with the required keys and no \<open>unique_iv\<close>, the arguments read for
  \<open>decrypt_token\<close> carry the string of 32 zero digits as IV; the IV validator turns that
  string into 16 zero bytes; and, when the JSON encoder serialises the token without
  raising, the iteration, in whatever state the loop is, calls \<open>decrypt_token\<close> with that
  IV, appends the token's record and goes on with the rest.
\<close>

theorem C7_default_iv:
  assumes "\<forall>k \<in> set required_keys. map_of d k \<noteq> None"
    and "map_of d (py ''unique_iv'') = None"
    and "json_dumps L (JObj d) = None"
  shows "token_arguments d
           = Inr (JStr (py ''00000000000000000000000000000000''),
                  the (map_of d (py ''key_derivation_iterations'')),
                  the (map_of d (py ''encrypted_seed'')), the (map_of d (py ''salt'')))
         \<and> get_iv (JStr (py ''00000000000000000000000000000000'')) = Inr (replicate 16 0)
         \<and> decrypt_loop L passphrase (JObj d # rest) tr acc
             = decrypt_loop L passphrase rest
                 \<lparr>printed = printed tr
                    @ fst (decrypt_token L (the (map_of d (py ''key_derivation_iterations'')))
                             (the (map_of d (py ''encrypted_seed''))) (the (map_of d (py ''salt'')))
                             passphrase (JStr (py ''00000000000000000000000000000000''))),
                  decrypted = decrypted tr
                    @ [snd (decrypt_token L (the (map_of d (py ''key_derivation_iterations'')))
                              (the (map_of d (py ''encrypted_seed''))) (the (map_of d (py ''salt'')))
                              passphrase (JStr (py ''00000000000000000000000000000000'')))]\<rparr>
                 (acc @ [JObj [(py ''account_type'', the (map_of d (py ''account_type''))),
                               (py ''name'', the (map_of d (py ''name''))),
                               (py ''issuer'', the (map_of d (py ''issuer''))),
                               (py ''decrypted_seed'',
                                JStr (snd (decrypt_token L (the (map_of d (py ''key_derivation_iterations'')))
                                             (the (map_of d (py ''encrypted_seed'')))
                                             (the (map_of d (py ''salt''))) passphrase
                                             (JStr (py ''00000000000000000000000000000000''))))),
                               (py ''digits'', the (map_of d (py ''digits''))),
                               (py ''logo'', the (map_of d (py ''logo''))),
                               (py ''unique_id'', the (map_of d (py ''unique_id'')))]])"
proof -
  have iv: "dict_get d (py ''unique_iv'') (JStr DEFAULT_IV) = JStr (py ''00000000000000000000000000000000'')"
    using assms(2) by (simp add: dict_get_def DEFAULT_IV_def)
  have a: "token_arguments d
           = Inr (JStr (py ''00000000000000000000000000000000''),
                  the (map_of d (py ''key_derivation_iterations'')),
                  the (map_of d (py ''encrypted_seed'')), the (map_of d (py ''salt'')))"
    using token_arguments_present [OF assms(1)] iv by simp
  show ?thesis
    using a get_iv_default by (simp add: assms(3) output_record_present [OF assms(1)] Let_def)
qed

theorem C7_default_iv_witness:
  "token_arguments (sample_token ''QUJDAgI='')
     = Inr (JStr (py ''00000000000000000000000000000000''), JInt 1000, JStr (py ''QUJDAgI=''),
            JStr (py ''salt''))
   \<and> get_iv (JStr (py ''00000000000000000000000000000000'')) = Inr (replicate 16 0)
   \<and> decrypt_loop sample_libs (py ''pw'') [JObj (sample_token ''QUJDAgI='')]
        \<lparr>printed = [], decrypted = []\<rparr> []
      = (\<lparr>printed = [], decrypted = [py ''ABC'']\<rparr>,
         Inr [JObj [(py ''account_type'', JStr (py ''authenticator'')),
                    (py ''name'', JStr (py ''alice'')), (py ''issuer'', JNull),
                    (py ''decrypted_seed'', JStr (py ''ABC'')), (py ''digits'', JInt 6),
                    (py ''logo'', JNull), (py ''unique_id'', JStr (py ''17''))]])"
proof -
  have t: "decrypt_token sample_libs (JInt 1000) (JStr (py ''QUJDAgI='')) (JStr (py ''salt''))
             (py ''pw'') (JStr (py ''00000000000000000000000000000000'')) = ([], py ''ABC'')"
    by (simp add: decrypt_token_def sample_pipeline_ok)
  have m: "the (map_of (sample_token ''QUJDAgI='') (py ''account_type'')) = JStr (py ''authenticator'')"
    "the (map_of (sample_token ''QUJDAgI='') (py ''name'')) = JStr (py ''alice'')"
    "the (map_of (sample_token ''QUJDAgI='') (py ''issuer'')) = JNull"
    "the (map_of (sample_token ''QUJDAgI='') (py ''digits'')) = JInt 6"
    "the (map_of (sample_token ''QUJDAgI='') (py ''logo'')) = JNull"
    "the (map_of (sample_token ''QUJDAgI='') (py ''unique_id'')) = JStr (py ''17'')"
    by (simp_all add: sample_token_def py_def)
  show ?thesis
    using C7_default_iv [OF sample_token_keys sample_token_lookup(4) sample_json_dumps,
        of "''QUJDAgI=''" "py ''pw''" "[]" "\<lparr>printed = [], decrypted = []\<rparr>" "[]"]
    by (simp del: decrypt_loop.simps(2) add: sample_token_lookup t m)
qed

text \<open>
  C10. On the empty byte sequence \<open>remove_padding\<close> raises IndexError (from
  \<open>decrypted_data[-1]\<close>), not one of its two ValueErrors; and when the stages before it
  succeed and the cipher returns no bytes, \<open>decrypt_token\<close> catches that IndexError,
  prints it and returns ``Decryption failed: index out of range''.
\<close>

theorem C10_remove_padding_empty:
  "remove_padding [] = Inl (Raise IndexError (py ''index out of range''))
   \<and> (\<forall>m. remove_padding [] \<noteq> Inl (Raise ValueError m))
   \<and> (decode_base64_seed encrypted_seed_b64 = Inr encrypted_seed \<and> get_iv unique_iv = Inr iv
        \<and> derive_key L kdf_rounds salt passphrase = Inr key
        \<and> decrypt_data L encrypted_seed key iv = Inr []
      \<longrightarrow> decrypt_token L kdf_rounds encrypted_seed_b64 salt passphrase unique_iv
            = ([RED @ py ''ERROR: Decryption failed with exception: '' @ py ''IndexError''
                @ py '': '' @ py ''index out of range'' @ RESET_ALL],
               py ''Decryption failed: '' @ py ''index out of range''))"
  by (simp add: remove_padding_def decrypt_token_def token_pipeline_def)

theorem C10_remove_padding_empty_witness:
  "decrypt_token sample_libs (JInt 1000) (JStr []) (JStr (py ''salt'')) (py ''pw'')
     (JStr (py ''00000000000000000000000000000000''))
   = ([RED @ py ''ERROR: Decryption failed with exception: '' @ py ''IndexError''
       @ py '': '' @ py ''index out of range'' @ RESET_ALL],
      py ''Decryption failed: '' @ py ''index out of range'')"
proof -
  have b: "decode_base64_seed (JStr []) = Inr []"
    by (simp add: decode_base64_seed_def b64decode_def)
  show ?thesis
    using C10_remove_padding_empty [of "JStr []" "[]" "JStr (py ''00000000000000000000000000000000'')"
        "replicate 16 0" sample_libs "JInt 1000" "JStr (py ''salt'')" "py ''pw''" "replicate 32 0"]
    by (simp add: b get_iv_default sample_derive_key sample_decrypt_data)
qed

section \<open>The whole run\<close>

lemma dict_item_Inl:
  "dict_item d k = Inl e \<Longrightarrow> map_of d k = None \<and> e = Raise KeyError ([39] @ k @ [39])"
  by (cases "map_of d k") (simp_all add: dict_item_def)

lemma token_arguments_keys:
  assumes "token_arguments d = Inr a"
  shows "map_of d (py ''key_derivation_iterations'') \<noteq> None
         \<and> map_of d (py ''encrypted_seed'') \<noteq> None \<and> map_of d (py ''salt'') \<noteq> None"
proof -
  have "(\<exists>v. dict_item d (py ''key_derivation_iterations'') = Inr v)
        \<and> (\<exists>v. dict_item d (py ''encrypted_seed'') = Inr v)
        \<and> (\<exists>v. dict_item d (py ''salt'') = Inr v)"
    using assms by (auto simp: token_arguments_def Let_def split: sum.splits)
  then show ?thesis by (auto dest: dict_item_Inr)
qed

lemma token_arguments_pipeline:
  assumes "map_of d (py ''key_derivation_iterations'') \<noteq> None"
    and "map_of d (py ''encrypted_seed'') \<noteq> None" and "map_of d (py ''salt'') \<noteq> None"
  shows "token_arguments d
           = Inr (dict_get d (py ''unique_iv'') (JStr DEFAULT_IV),
                  the (map_of d (py ''key_derivation_iterations'')),
                  the (map_of d (py ''encrypted_seed'')), the (map_of d (py ''salt'')))"
  using assms by (simp add: token_arguments_def dict_item_present)

lemma token_arguments_Inl:
  assumes "token_arguments d = Inl e"
  shows "\<exists>k \<in> set required_keys. map_of d k = None \<and> e = Raise KeyError ([39] @ k @ [39])"
proof -
  have "dict_item d (py ''key_derivation_iterations'') = Inl e
        \<or> dict_item d (py ''encrypted_seed'') = Inl e \<or> dict_item d (py ''salt'') = Inl e"
    using assms by (auto simp: token_arguments_def Let_def split: sum.splits)
  then obtain k where "k \<in> set required_keys" "dict_item d k = Inl e"
    by (auto simp: required_keys_def)
  then show ?thesis using dict_item_Inl by blast
qed

lemma output_record_Inl:
  assumes "output_record d seed = Inl e"
  shows "\<exists>k \<in> set required_keys. map_of d k = None \<and> e = Raise KeyError ([39] @ k @ [39])"
proof -
  have "dict_item d (py ''account_type'') = Inl e \<or> dict_item d (py ''name'') = Inl e
        \<or> dict_item d (py ''issuer'') = Inl e \<or> dict_item d (py ''digits'') = Inl e
        \<or> dict_item d (py ''logo'') = Inl e \<or> dict_item d (py ''unique_id'') = Inl e"
    using assms by (auto simp: output_record_def split: sum.splits)
  then obtain k where "k \<in> set required_keys" "dict_item d k = Inl e"
    by (auto simp: required_keys_def)
  then show ?thesis using dict_item_Inl by blast
qed

lemma output_record_keys:
  assumes "output_record d seed = Inr y"
  shows "map_of d (py ''account_type'') \<noteq> None \<and> map_of d (py ''name'') \<noteq> None
         \<and> map_of d (py ''issuer'') \<noteq> None \<and> map_of d (py ''digits'') \<noteq> None
         \<and> map_of d (py ''logo'') \<noteq> None \<and> map_of d (py ''unique_id'') \<noteq> None"
proof -
  have "(\<exists>v. dict_item d (py ''account_type'') = Inr v) \<and> (\<exists>v. dict_item d (py ''name'') = Inr v)
        \<and> (\<exists>v. dict_item d (py ''issuer'') = Inr v) \<and> (\<exists>v. dict_item d (py ''digits'') = Inr v)
        \<and> (\<exists>v. dict_item d (py ''logo'') = Inr v) \<and> (\<exists>v. dict_item d (py ''unique_id'') = Inr v)"
    using assms by (auto simp: output_record_def split: sum.splits)
  then show ?thesis by (auto dest: dict_item_Inr)
qed

lemma decrypt_loop_missing_key:
  "\<exists>t \<in> set ts. \<exists>d. t = JObj d \<and> (\<exists>k \<in> set required_keys. map_of d k = None)
     \<Longrightarrow> \<exists>tr' e. decrypt_loop L pw ts tr acc = (tr', Inl e)"
proof (induction ts arbitrary: tr acc)
  case Nil
  then show ?case by simp
next
  case (Cons t ts)
  show ?case
  proof (cases "json_dumps L t")
    case (Some e)
    then show ?thesis by simp
  next
    case None
    show ?thesis
    proof (cases t)
      case (JObj d)
      show ?thesis
      proof (cases "token_arguments d")
        case (Inl e)
        with JObj None show ?thesis by simp
      next
        case (Inr a)
        obtain unique_iv kdf_rounds es salt where a: "a = (unique_iv, kdf_rounds, es, salt)"
          by (cases a) auto
        show ?thesis
        proof (cases "output_record d (snd (decrypt_token L kdf_rounds es salt pw unique_iv))")
          case (Inl e)
          with JObj None Inr a show ?thesis by (simp add: Let_def)
        next
          case r: (Inr entry)
          have "\<forall>k \<in> set required_keys. map_of d k \<noteq> None"
            unfolding required_keys_iff
            using token_arguments_keys [OF Inr] output_record_keys [OF r] by simp
          with Cons.prems JObj
          have "\<exists>t \<in> set ts. \<exists>d. t = JObj d \<and> (\<exists>k \<in> set required_keys. map_of d k = None)"
            by auto
          from Cons.IH [OF this] JObj None Inr a r show ?thesis by (simp add: Let_def)
        qed
      qed
    qed (insert None, simp_all)
  qed
qed

lemma decrypt_loop_missing_step:
  assumes "json_dumps L (JObj d) = None" and "\<exists>k \<in> set required_keys. map_of d k = None"
  shows "\<exists>p k. k \<in> set required_keys \<and> map_of d k = None
           \<and> decrypt_loop L pw (JObj d # rest) tr acc
               = (\<lparr>printed = p,
                   decrypted = decrypted tr
                     @ (if map_of d (py ''key_derivation_iterations'') \<noteq> None
                           \<and> map_of d (py ''encrypted_seed'') \<noteq> None
                           \<and> map_of d (py ''salt'') \<noteq> None
                        then [expected_seed L pw d] else [])\<rparr>,
                  Inl (Raise KeyError ([39] @ k @ [39])))"
proof (cases "token_arguments d")
  case (Inl e)
  from token_arguments_Inl [OF Inl] obtain k
    where k: "k \<in> set required_keys" "map_of d k = None" "e = Raise KeyError ([39] @ k @ [39])"
    by blast
  have n: "\<not> (map_of d (py ''key_derivation_iterations'') \<noteq> None
              \<and> map_of d (py ''encrypted_seed'') \<noteq> None \<and> map_of d (py ''salt'') \<noteq> None)"
  proof
    assume "map_of d (py ''key_derivation_iterations'') \<noteq> None
              \<and> map_of d (py ''encrypted_seed'') \<noteq> None \<and> map_of d (py ''salt'') \<noteq> None"
    then have "\<exists>a. token_arguments d = Inr a" by (simp add: token_arguments_pipeline)
    with Inl show False by simp
  qed
  have "decrypt_loop L pw (JObj d # rest) tr acc
          = (\<lparr>printed = printed tr, decrypted = decrypted tr @ []\<rparr>, Inl e)"
    using assms(1) Inl by simp
  with k n show ?thesis by auto
next
  case (Inr a)
  from token_arguments_keys [OF Inr]
  have y: "map_of d (py ''key_derivation_iterations'') \<noteq> None
           \<and> map_of d (py ''encrypted_seed'') \<noteq> None \<and> map_of d (py ''salt'') \<noteq> None" .
  then have a: "token_arguments d
           = Inr (dict_get d (py ''unique_iv'') (JStr DEFAULT_IV),
                  the (map_of d (py ''key_derivation_iterations'')),
                  the (map_of d (py ''encrypted_seed'')), the (map_of d (py ''salt'')))"
    by (simp add: token_arguments_pipeline)
  have s: "snd (decrypt_token L (the (map_of d (py ''key_derivation_iterations'')))
                  (the (map_of d (py ''encrypted_seed''))) (the (map_of d (py ''salt''))) pw
                  (dict_get d (py ''unique_iv'') (JStr DEFAULT_IV)))
             = expected_seed L pw d"
    by (simp add: snd_decrypt_token expected_seed_def dict_get_def DEFAULT_IV_def)
  have "\<exists>e. output_record d (expected_seed L pw d) = Inl e"
  proof (cases "output_record d (expected_seed L pw d)")
    case (Inl e)
    then show ?thesis by simp
  next
    case r: (Inr entry)
    have "\<forall>k \<in> set required_keys. map_of d k \<noteq> None"
      unfolding required_keys_iff using y output_record_keys [OF r] by simp
    with assms(2) show ?thesis by blast
  qed
  then obtain e where e: "output_record d (expected_seed L pw d) = Inl e" by blast
  from output_record_Inl [OF e] obtain k
    where k: "k \<in> set required_keys" "map_of d k = None" "e = Raise KeyError ([39] @ k @ [39])"
    by blast
  have "decrypt_loop L pw (JObj d # rest) tr acc
          = (\<lparr>printed = printed tr
                 @ fst (decrypt_token L (the (map_of d (py ''key_derivation_iterations'')))
                          (the (map_of d (py ''encrypted_seed''))) (the (map_of d (py ''salt''))) pw
                          (dict_get d (py ''unique_iv'') (JStr DEFAULT_IV))),
              decrypted = decrypted tr @ [expected_seed L pw d]\<rparr>, Inl e)"
    using assms(1) by (simp add: a Let_def s e)
  with k y show ?thesis by auto
qed

lemma top_level_lookup:
  "map_of root (py ''authenticator_tokens'') = Some v
     \<Longrightarrow> load_authenticator_data (Inr (JObj root)) = Inr (JObj root)
         \<and> py_getitem (JObj root) (py ''authenticator_tokens'') = Inr v"
  by (simp add: load_authenticator_data_def py_contains_def py_getitem_def dict_item_def)

lemma process_aborted:
  assumes "map_of root (py ''authenticator_tokens'') = Some (JArr ts)"
    and "decrypt_loop L passphrase ts \<lparr>printed = [], decrypted = []\<rparr> [] = (tr', Inl e)"
  shows "process_authenticator_data L (Inr (JObj root)) open_output passphrase
          = \<lparr>effects = tr'\<lparr>printed := printed tr' @ [error_line (py ''Failed during decryption: '') e]\<rparr>,
             written = None\<rparr>"
  using top_level_lookup [OF assms(1)] assms(2)
  by (simp add: process_authenticator_data_def decrypt_all_tokens_def py_iter_def)

text \<open>
  C9. The claim: a missing required key, at the top level or in a token, aborts the run
  before any token is processed, with an error reported and no output file. For the
  top-level key that is what happens. A missing key of a token is found only when the
  loop reaches that token, after the tokens before it have been decrypted. As amended:
  \<^item> when \<open>authenticator_tokens\<close> is missing, the run prints the KeyError, decrypts
    nothing and leaves no output file;
  \<^item> when a token of the list lacks a required key, the run ends with the line
    ``ERROR: Failed during decryption: ...'' and leaves no output file;
  \<^item> when the tokens before the first such token are complete (and the JSON encoder
    serialises them and that token without raising), the run has decrypted exactly those
    tokens, in order, and that token too when its three pipeline fields are present, and
    the error it reports is the KeyError of a key that token lacks.
\<close>

theorem C9_missing_key_no_output:
  "(map_of root (py ''authenticator_tokens'') = None
      \<longrightarrow> process_authenticator_data L (Inr (JObj root)) open_output passphrase
            = \<lparr>effects =
                 \<lparr>printed =
                    [RED @ py ''ERROR: '' @ [39] @ py ''Key '' @ [34] @ py ''authenticator_tokens''
                     @ [34] @ py '' not found in the input file.'' @ [39] @ RESET_ALL],
                  decrypted = []\<rparr>,
               written = None\<rparr>)
   \<and> (map_of root (py ''authenticator_tokens'') = Some (JArr ts)
        \<and> (\<exists>t \<in> set ts. \<exists>d. t = JObj d \<and> (\<exists>k \<in> set required_keys. map_of d k = None))
      \<longrightarrow> written (process_authenticator_data L (Inr (JObj root)) open_output passphrase) = None
          \<and> (\<exists>before e.
                printed (effects (process_authenticator_data L (Inr (JObj root)) open_output passphrase))
                  = before @ [error_line (py ''Failed during decryption: '') e]))
   \<and> (map_of root (py ''authenticator_tokens'') = Some (JArr (map JObj good @ JObj bad # rest))
        \<and> (\<forall>d \<in> set good. json_dumps L (JObj d) = None
                            \<and> (\<forall>k \<in> set required_keys. map_of d k \<noteq> None))
        \<and> json_dumps L (JObj bad) = None
        \<and> (\<exists>k \<in> set required_keys. map_of bad k = None)
      \<longrightarrow> decrypted (effects (process_authenticator_data L (Inr (JObj root)) open_output passphrase))
            = map (expected_seed L passphrase) good
              @ (if map_of bad (py ''key_derivation_iterations'') \<noteq> None
                    \<and> map_of bad (py ''encrypted_seed'') \<noteq> None
                    \<and> map_of bad (py ''salt'') \<noteq> None
                 then [expected_seed L passphrase bad] else [])
          \<and> (\<exists>before k. k \<in> set required_keys \<and> map_of bad k = None
                \<and> printed (effects (process_authenticator_data L (Inr (JObj root)) open_output passphrase))
                    = before @ [error_line (py ''Failed during decryption: '')
                                  (Raise KeyError ([39] @ k @ [39]))])
          \<and> written (process_authenticator_data L (Inr (JObj root)) open_output passphrase) = None)"
proof -
  have A: "process_authenticator_data L (Inr (JObj root)) open_output passphrase
            = \<lparr>effects =
                 \<lparr>printed =
                    [RED @ py ''ERROR: '' @ [39] @ py ''Key '' @ [34] @ py ''authenticator_tokens''
                     @ [34] @ py '' not found in the input file.'' @ [39] @ RESET_ALL],
                  decrypted = []\<rparr>,
               written = None\<rparr>"
    if "map_of root (py ''authenticator_tokens'') = None"
    using that
    by (simp add: process_authenticator_data_def load_authenticator_data_def py_contains_def
          error_line_def)
  have B: "written (process_authenticator_data L (Inr (JObj root)) open_output passphrase) = None
          \<and> (\<exists>before e.
                printed (effects (process_authenticator_data L (Inr (JObj root)) open_output passphrase))
                  = before @ [error_line (py ''Failed during decryption: '') e])"
    if a: "map_of root (py ''authenticator_tokens'') = Some (JArr ts)
        \<and> (\<exists>t \<in> set ts. \<exists>d. t = JObj d \<and> (\<exists>k \<in> set required_keys. map_of d k = None))"
  proof -
    from a obtain tr' e
      where l: "decrypt_loop L passphrase ts \<lparr>printed = [], decrypted = []\<rparr> [] = (tr', Inl e)"
      using decrypt_loop_missing_key [of ts L passphrase "\<lparr>printed = [], decrypted = []\<rparr>" "[]"]
      by blast
    from a have r: "map_of root (py ''authenticator_tokens'') = Some (JArr ts)" by simp
    show ?thesis unfolding process_aborted [OF r l] by auto
  qed
  have C: "decrypted (effects (process_authenticator_data L (Inr (JObj root)) open_output passphrase))
            = map (expected_seed L passphrase) good
              @ (if map_of bad (py ''key_derivation_iterations'') \<noteq> None
                    \<and> map_of bad (py ''encrypted_seed'') \<noteq> None
                    \<and> map_of bad (py ''salt'') \<noteq> None
                 then [expected_seed L passphrase bad] else [])
          \<and> (\<exists>before k. k \<in> set required_keys \<and> map_of bad k = None
                \<and> printed (effects (process_authenticator_data L (Inr (JObj root)) open_output passphrase))
                    = before @ [error_line (py ''Failed during decryption: '')
                                  (Raise KeyError ([39] @ k @ [39]))])
          \<and> written (process_authenticator_data L (Inr (JObj root)) open_output passphrase) = None"
    if a: "map_of root (py ''authenticator_tokens'') = Some (JArr (map JObj good @ JObj bad # rest))
        \<and> (\<forall>d \<in> set good. json_dumps L (JObj d) = None
                            \<and> (\<forall>k \<in> set required_keys. map_of d k \<noteq> None))
        \<and> json_dumps L (JObj bad) = None
        \<and> (\<exists>k \<in> set required_keys. map_of bad k = None)"
  proof -
    from a have g: "\<forall>d \<in> set good. json_dumps L (JObj d) = None
                            \<and> (\<forall>k \<in> set required_keys. map_of d k \<noteq> None)"
      and b: "json_dumps L (JObj bad) = None" "\<exists>k \<in> set required_keys. map_of bad k = None"
      and r: "map_of root (py ''authenticator_tokens'') = Some (JArr (map JObj good @ JObj bad # rest))"
      by simp_all
    from decrypt_loop_prefix [OF g, of passphrase "JObj bad # rest" "\<lparr>printed = [], decrypted = []\<rparr>" "[]"]
    obtain p where p: "decrypt_loop L passphrase (map JObj good @ JObj bad # rest)
                         \<lparr>printed = [], decrypted = []\<rparr> []
                       = decrypt_loop L passphrase (JObj bad # rest)
                           \<lparr>printed = p, decrypted = map (expected_seed L passphrase) good\<rparr>
                           (map (expected_record L passphrase) good)"
      by auto
    from decrypt_loop_missing_step [OF b, of passphrase rest
        "\<lparr>printed = p, decrypted = map (expected_seed L passphrase) good\<rparr>"
        "map (expected_record L passphrase) good"]
    obtain q k where k: "k \<in> set required_keys" "map_of bad k = None"
      and l: "decrypt_loop L passphrase (JObj bad # rest)
                \<lparr>printed = p, decrypted = map (expected_seed L passphrase) good\<rparr>
                (map (expected_record L passphrase) good)
              = (\<lparr>printed = q,
                  decrypted = map (expected_seed L passphrase) good
                    @ (if map_of bad (py ''key_derivation_iterations'') \<noteq> None
                          \<and> map_of bad (py ''encrypted_seed'') \<noteq> None
                          \<and> map_of bad (py ''salt'') \<noteq> None
                       then [expected_seed L passphrase bad] else [])\<rparr>,
                 Inl (Raise KeyError ([39] @ k @ [39])))"
      by auto
    show ?thesis
      unfolding process_aborted [OF r p [unfolded l]] using k by auto
  qed
  show ?thesis using A B C by blast
qed

text \<open>
  The claim as stated fails on a batch of a complete token followed by one without
  \<open>salt\<close>: when the run aborts, the first token has been decrypted (to \<open>ABC\<close>, under the
  sample library).
\<close>

theorem C9_processing_started_counterexample:
  "map_of [(py ''key_derivation_iterations'', JInt 1000), (py ''encrypted_seed'', JStr (py ''QUJDAgI=''))]
       (py ''salt'') = None
   \<and> decrypted (effects (process_authenticator_data sample_libs
         (Inr (JObj [(py ''authenticator_tokens'',
                      JArr [JObj (sample_token ''QUJDAgI=''),
                            JObj [(py ''key_derivation_iterations'', JInt 1000),
                                  (py ''encrypted_seed'', JStr (py ''QUJDAgI=''))]])]))
         None (py ''pw''))) = [py ''ABC'']
   \<and> written (process_authenticator_data sample_libs
         (Inr (JObj [(py ''authenticator_tokens'',
                      JArr [JObj (sample_token ''QUJDAgI=''),
                            JObj [(py ''key_derivation_iterations'', JInt 1000),
                                  (py ''encrypted_seed'', JStr (py ''QUJDAgI=''))]])]))
         None (py ''pw'')) = None"
proof -
  have m: "map_of [(py ''key_derivation_iterations'', JInt 1000), (py ''encrypted_seed'', JStr (py ''QUJDAgI=''))]
       (py ''salt'') = None"
    by (simp add: py_def)
  have a: "token_arguments [(py ''key_derivation_iterations'', JInt 1000),
                            (py ''encrypted_seed'', JStr (py ''QUJDAgI=''))]
             = Inl (Raise KeyError ([39] @ py ''salt'' @ [39]))"
    by (simp add: token_arguments_def dict_item_def Let_def py_def)
  have l: "decrypt_loop sample_libs (py ''pw'')
             [JObj (sample_token ''QUJDAgI=''),
              JObj [(py ''key_derivation_iterations'', JInt 1000),
                    (py ''encrypted_seed'', JStr (py ''QUJDAgI=''))]]
             \<lparr>printed = [], decrypted = []\<rparr> []
           = (\<lparr>printed = fst (decrypt_token sample_libs
                                (the (map_of (sample_token ''QUJDAgI='') (py ''key_derivation_iterations'')))
                                (the (map_of (sample_token ''QUJDAgI='') (py ''encrypted_seed'')))
                                (the (map_of (sample_token ''QUJDAgI='') (py ''salt''))) (py ''pw'')
                                (dict_get (sample_token ''QUJDAgI='') (py ''unique_iv'') (JStr DEFAULT_IV))),
               decrypted = [py ''ABC'']\<rparr>,
              Inl (Raise KeyError ([39] @ py ''salt'' @ [39])))"
    unfolding decrypt_loop_step [OF sample_json_dumps sample_token_keys]
    by (simp add: a sample_seed_ok sample_json_dumps)
  have r: "map_of [(py ''authenticator_tokens'',
                      JArr [JObj (sample_token ''QUJDAgI=''),
                            JObj [(py ''key_derivation_iterations'', JInt 1000),
                                  (py ''encrypted_seed'', JStr (py ''QUJDAgI=''))]])]
             (py ''authenticator_tokens'')
           = Some (JArr [JObj (sample_token ''QUJDAgI=''),
                         JObj [(py ''key_derivation_iterations'', JInt 1000),
                               (py ''encrypted_seed'', JStr (py ''QUJDAgI=''))]])"
    by simp
  show ?thesis
    unfolding process_aborted [OF r l] using m by simp
qed

theorem C9_missing_key_no_output_witness:
  "process_authenticator_data sample_libs (Inr (JObj [])) None (py ''pw'')
     = \<lparr>effects =
          \<lparr>printed =
             [RED @ py ''ERROR: '' @ [39] @ py ''Key '' @ [34] @ py ''authenticator_tokens''
              @ [34] @ py '' not found in the input file.'' @ [39] @ RESET_ALL],
           decrypted = []\<rparr>,
        written = None\<rparr>
   \<and> written (process_authenticator_data sample_libs
                (Inr (JObj [(py ''authenticator_tokens'', JArr [JObj []])])) None (py ''pw'')) = None
   \<and> (\<exists>before e.
         printed (effects (process_authenticator_data sample_libs
                             (Inr (JObj [(py ''authenticator_tokens'', JArr [JObj []])])) None
                             (py ''pw'')))
           = before @ [error_line (py ''Failed during decryption: '') e])
   \<and> decrypted (effects (process_authenticator_data sample_libs
         (Inr (JObj [(py ''authenticator_tokens'',
                      JArr [JObj (sample_token ''QUJDAgI=''),
                            JObj [(py ''key_derivation_iterations'', JInt 1000),
                                  (py ''encrypted_seed'', JStr (py ''Q'')),
                                  (py ''salt'', JStr (py ''salt''))],
                            JObj (sample_token ''QUJDAgI='')])]))
         None (py ''pw'')))
       = [py ''ABC'',
          py ''Decryption failed: '' @ py ''Invalid base64-encoded string: number of data characters (1) cannot be 1 more than a multiple of 4'']"
proof -
  have a: "process_authenticator_data sample_libs (Inr (JObj [])) None (py ''pw'')
     = \<lparr>effects =
          \<lparr>printed =
             [RED @ py ''ERROR: '' @ [39] @ py ''Key '' @ [34] @ py ''authenticator_tokens''
              @ [34] @ py '' not found in the input file.'' @ [39] @ RESET_ALL],
           decrypted = []\<rparr>,
        written = None\<rparr>"
    using C9_missing_key_no_output [where root = "[]" and L = sample_libs and open_output = None
        and passphrase = "py ''pw''" and ts = "[]" and good = "[]" and bad = "[]" and rest = "[]"]
    by simp
  have k: "\<exists>k \<in> set required_keys. map_of [] k = (None :: json option)"
    by (auto simp: required_keys_def)
  have b: "written (process_authenticator_data sample_libs
                (Inr (JObj [(py ''authenticator_tokens'', JArr [JObj []])])) None (py ''pw'')) = None
   \<and> (\<exists>before e.
         printed (effects (process_authenticator_data sample_libs
                             (Inr (JObj [(py ''authenticator_tokens'', JArr [JObj []])])) None
                             (py ''pw'')))
           = before @ [error_line (py ''Failed during decryption: '') e])"
    using C9_missing_key_no_output [where root = "[(py ''authenticator_tokens'', JArr [JObj []])]"
        and ts = "[JObj []]" and L = sample_libs and open_output = None and passphrase = "py ''pw''"
        and good = "[]" and bad = "[]" and rest = "[]"] k
    by simp
  have g: "\<forall>d \<in> set [sample_token ''QUJDAgI=''].
             json_dumps sample_libs (JObj d) = None
             \<and> (\<forall>k \<in> set required_keys. map_of d k \<noteq> None)"
    using sample_token_keys sample_json_dumps by simp
  have m: "map_of [(py ''key_derivation_iterations'', JInt 1000),
                   (py ''encrypted_seed'', JStr (py ''Q'')), (py ''salt'', JStr (py ''salt''))]
             (py ''key_derivation_iterations'') = Some (JInt 1000)"
    "map_of [(py ''key_derivation_iterations'', JInt 1000),
             (py ''encrypted_seed'', JStr (py ''Q'')), (py ''salt'', JStr (py ''salt''))]
       (py ''encrypted_seed'') = Some (JStr (py ''Q''))"
    "map_of [(py ''key_derivation_iterations'', JInt 1000),
             (py ''encrypted_seed'', JStr (py ''Q'')), (py ''salt'', JStr (py ''salt''))]
       (py ''salt'') = Some (JStr (py ''salt''))"
    "map_of [(py ''key_derivation_iterations'', JInt 1000),
             (py ''encrypted_seed'', JStr (py ''Q'')), (py ''salt'', JStr (py ''salt''))]
       (py ''unique_iv'') = None"
    "map_of [(py ''key_derivation_iterations'', JInt 1000),
             (py ''encrypted_seed'', JStr (py ''Q'')), (py ''salt'', JStr (py ''salt''))]
       (py ''logo'') = None"
    by (simp_all add: py_def)
  have n: "\<exists>k \<in> set required_keys.
             map_of [(py ''key_derivation_iterations'', JInt 1000),
                     (py ''encrypted_seed'', JStr (py ''Q'')), (py ''salt'', JStr (py ''salt''))] k
               = None"
    using m(5) by (auto simp: required_keys_def)
  have e: "expected_seed sample_libs (py ''pw'')
             [(py ''key_derivation_iterations'', JInt 1000),
              (py ''encrypted_seed'', JStr (py ''Q'')), (py ''salt'', JStr (py ''salt''))]
           = py ''Decryption failed: '' @ py ''Invalid base64-encoded string: number of data characters (1) cannot be 1 more than a multiple of 4''"
    unfolding expected_seed_def m by (simp add: sample_pipeline_bad)
  have c: "decrypted (effects (process_authenticator_data sample_libs
         (Inr (JObj [(py ''authenticator_tokens'',
                      JArr [JObj (sample_token ''QUJDAgI=''),
                            JObj [(py ''key_derivation_iterations'', JInt 1000),
                                  (py ''encrypted_seed'', JStr (py ''Q'')),
                                  (py ''salt'', JStr (py ''salt''))],
                            JObj (sample_token ''QUJDAgI='')])]))
         None (py ''pw'')))
       = [py ''ABC'',
          py ''Decryption failed: '' @ py ''Invalid base64-encoded string: number of data characters (1) cannot be 1 more than a multiple of 4'']"
    using C9_missing_key_no_output
      [where root = "[(py ''authenticator_tokens'',
                      JArr [JObj (sample_token ''QUJDAgI=''),
                            JObj [(py ''key_derivation_iterations'', JInt 1000),
                                  (py ''encrypted_seed'', JStr (py ''Q'')),
                                  (py ''salt'', JStr (py ''salt''))],
                            JObj (sample_token ''QUJDAgI='')])]"
        and ts = "[]" and L = sample_libs and open_output = None and passphrase = "py ''pw''"
        and good = "[sample_token ''QUJDAgI='']"
        and bad = "[(py ''key_derivation_iterations'', JInt 1000),
                    (py ''encrypted_seed'', JStr (py ''Q'')), (py ''salt'', JStr (py ''salt''))]"
        and rest = "[JObj (sample_token ''QUJDAgI='')]"]
      g n
    by (simp add: sample_json_dumps m sample_seed_ok e)
  from a b c show ?thesis by simp
qed

end
